theory Spec2Isabelle
  imports Main
begin

section \<open>Telegram Web photo uploader: the content script\<close>

text \<open>
  A shallow embedding of \<^verbatim>\<open>content_script.js\<close>. The script runs on one thread against a
  document it does not control, so the model passes an explicit \<open>world\<close> through every
  function: the clock, the current document, what the page will do by itself later, how
  the page reacts while one of our calls is running, and logs of what the script did to the
  page (calls on elements, observer subscriptions, safety timers still scheduled).
  An \<^verbatim>\<open>async\<close> function returns the state in which its promise ends together with the
  world at that moment; a thrown exception is the left summand of a sum.
\<close>

subsection \<open>Strings\<close>

text \<open>
  A string is a list of characters with the codes 0 to 255, read as the Unicode code points
  of the same numbers (Latin-1); text with other code points is outside the model.
  \<open>str_includes\<close> is \<^verbatim>\<open>String.prototype.includes\<close>; \<open>trim\<close> and \<open>toLowerCase\<close> are
  the methods of the same names on such strings.
\<close>

fun startsWith :: "string \<Rightarrow> string \<Rightarrow> bool" where
  "startsWith s [] = True"
| "startsWith [] (c # cs) = False"
| "startsWith (a # s) (c # cs) = (a = c \<and> startsWith s cs)"

fun str_includes :: "string \<Rightarrow> string \<Rightarrow> bool" where
  "str_includes [] sub = (sub = [])"
| "str_includes (a # s) sub = (startsWith (a # s) sub \<or> str_includes s sub)"

text \<open>
  The white space and line terminators that \<^verbatim>\<open>trim\<close> strips, as far as they have codes
  below 256: tab, line feed, vertical tab, form feed, carriage return, space and the
  no-break space U+00A0.
\<close>

definition is_js_space :: "char \<Rightarrow> bool" where
  "is_js_space c = (c = CHR '' '' \<or> c = CHR 0x09 \<or> c = CHR 0x0A \<or> c = CHR 0x0B
                    \<or> c = CHR 0x0C \<or> c = CHR 0x0D \<or> c = CHR 0xA0)"

definition trim :: "string \<Rightarrow> string" where
  "trim s = rev (dropWhile is_js_space (rev (dropWhile is_js_space s)))"

text \<open>
  The letters with a lower-case form: A to Z, and U+00C0 to U+00DE without the
  multiplication sign U+00D7; the lower-case form is 32 code points further on.
\<close>

definition lower_char :: "char \<Rightarrow> char" where
  "lower_char c =
     (case map_of (zip
       (''ABCDEFGHIJKLMNOPQRSTUVWXYZ'' @
        [CHR 0xC0, CHR 0xC1, CHR 0xC2, CHR 0xC3, CHR 0xC4, CHR 0xC5, CHR 0xC6, CHR 0xC7,
        CHR 0xC8, CHR 0xC9, CHR 0xCA, CHR 0xCB, CHR 0xCC, CHR 0xCD, CHR 0xCE, CHR 0xCF,
        CHR 0xD0, CHR 0xD1, CHR 0xD2, CHR 0xD3, CHR 0xD4, CHR 0xD5, CHR 0xD6, CHR 0xD8,
        CHR 0xD9, CHR 0xDA, CHR 0xDB, CHR 0xDC, CHR 0xDD, CHR 0xDE])
       (''abcdefghijklmnopqrstuvwxyz'' @
        [CHR 0xE0, CHR 0xE1, CHR 0xE2, CHR 0xE3, CHR 0xE4, CHR 0xE5, CHR 0xE6, CHR 0xE7,
        CHR 0xE8, CHR 0xE9, CHR 0xEA, CHR 0xEB, CHR 0xEC, CHR 0xED, CHR 0xEE, CHR 0xEF,
        CHR 0xF0, CHR 0xF1, CHR 0xF2, CHR 0xF3, CHR 0xF4, CHR 0xF5, CHR 0xF6, CHR 0xF8,
        CHR 0xF9, CHR 0xFA, CHR 0xFB, CHR 0xFC, CHR 0xFD, CHR 0xFE])) c of
        None \<Rightarrow> c
      | Some l \<Rightarrow> l)"

definition toLowerCase :: "string \<Rightarrow> string" where
  "toLowerCase s = map lower_char s"

text \<open>Decimal rendering of a number inside a template literal.\<close>

definition digit_char :: "nat \<Rightarrow> char" where
  "digit_char d = ''0123456789'' ! d"

function show_nat :: "nat \<Rightarrow> string" where
  "show_nat n = (if n < 10 then [digit_char n] else show_nat (n div 10) @ [digit_char (n mod 10)])"
  by pat_completeness auto
termination
  by (relation "measure id") auto

declare show_nat.simps [simp del]

subsection \<open>Errors and promises\<close>

text \<open>
  Every value thrown by the script is an \<^verbatim>\<open>Error\<close> object, of which only the message is
  read. A promise that is awaited ends fulfilled, rejected, or is never settled.
\<close>

datatype js_error = Error (error_message: string)

datatype 'a outcome = Fulfilled 'a | Rejected js_error | Pending

subsection \<open>The document\<close>

text \<open>
  The document is the list of its elements in document order. An element carries the
  properties the script reads: \<^verbatim>\<open>className\<close>, \<^verbatim>\<open>textContent\<close>, \<^verbatim>\<open>offsetParent\<close>
  (\<open>None\<close> is \<^verbatim>\<open>null\<close>: no layout box), its other attributes and \<^verbatim>\<open>style.display\<close>.
  \<open>node_id\<close> is the identity of the element object, \<open>tagName\<close> the local name that a
  type selector is compared with, in lower case.
\<close>

record element =
  node_id :: nat
  tagName :: string
  className :: string
  textContent :: string
  offsetParent :: "nat option"
  attributes :: "(string \<times> string) list"
  style_display :: string

type_synonym document = "element list"

definition is_ascii_whitespace :: "char \<Rightarrow> bool" where
  "is_ascii_whitespace c = (c = CHR '' '' \<or> c = CHR 0x09 \<or> c = CHR 0x0A
                            \<or> c = CHR 0x0C \<or> c = CHR 0x0D)"

fun tokens :: "string \<Rightarrow> string \<Rightarrow> string list" where
  "tokens acc [] = (if acc = [] then [] else [acc])"
| "tokens acc (c # cs) =
     (if is_ascii_whitespace c then (if acc = [] then tokens [] cs else acc # tokens [] cs)
      else tokens (acc @ [c]) cs)"

definition classList :: "element \<Rightarrow> string list" where
  "classList e = tokens [] (className e)"

text \<open>
  The selectors of the script are groups of simple selectors: a class, a type or an
  attribute with a value. \<open>Malformed\<close> stands for a string that is no selector, on which
  \<^verbatim>\<open>querySelector\<close> throws. \<open>css\<close> is the text of the selector.
\<close>

datatype simple_selector = ClassSel string | TypeSel string | AttrSel string string

datatype selector = Group "simple_selector list" | Malformed string

fun css_simple :: "simple_selector \<Rightarrow> string" where
  "css_simple (ClassSel c) = ''.'' @ c"
| "css_simple (TypeSel t) = t"
| "css_simple (AttrSel a v) = ''['' @ a @ ''='' @ [CHR 0x22] @ v @ [CHR 0x22] @ '']''"

fun css_group :: "simple_selector list \<Rightarrow> string" where
  "css_group [] = []"
| "css_group [s] = css_simple s"
| "css_group (s # t # ss) = css_simple s @ '', '' @ css_group (t # ss)"

fun css :: "selector \<Rightarrow> string" where
  "css (Group ss) = css_group ss"
| "css (Malformed s) = s"

fun matches_simple :: "simple_selector \<Rightarrow> element \<Rightarrow> bool" where
  "matches_simple (ClassSel c) e = (c \<in> set (classList e))"
| "matches_simple (TypeSel t) e = (tagName e = t)"
| "matches_simple (AttrSel a v) e = (map_of (attributes e) a = Some v)"

definition matches :: "simple_selector list \<Rightarrow> element \<Rightarrow> bool" where
  "matches ss e = list_ex (\<lambda>s. matches_simple s e) ss"

definition syntax_error :: "string \<Rightarrow> js_error" where
  "syntax_error s = Error ([CHR 0x27] @ s @ [CHR 0x27] @ '' is not a valid selector.'')"

fun querySelector :: "selector \<Rightarrow> document \<Rightarrow> js_error + element option" where
  "querySelector (Group ss) d = Inr (find (matches ss) d)"
| "querySelector (Malformed s) d = Inl (syntax_error s)"

fun querySelectorAll :: "selector \<Rightarrow> document \<Rightarrow> js_error + element list" where
  "querySelectorAll (Group ss) d = Inr (filter (matches ss) d)"
| "querySelectorAll (Malformed s) d = Inl (syntax_error s)"

subsection \<open>Payload and synthetic events\<close>

record file_object =
  file_name :: string
  file_type :: string
  file_bytes :: "nat list"
  lastModified :: nat

record data_transfer =
  files :: "file_object list"
  effectAllowed :: string
  dropEffect :: string

text \<open>
  Every synthetic event is created with \<^verbatim>\<open>bubbles: true, cancelable: true\<close>. A drag event
  has its type and its \<^verbatim>\<open>dataTransfer\<close>; a keyboard event its type, \<^verbatim>\<open>key\<close>, \<^verbatim>\<open>code\<close> and
  \<^verbatim>\<open>keyCode\<close>.
\<close>

datatype synthetic_event =
    DragEvent string data_transfer
  | KeyboardEvent string string string nat

text \<open>
  What the script does to an element: \<^verbatim>\<open>dispatchEvent\<close>, \<^verbatim>\<open>focus\<close>, and
  \<^verbatim>\<open>addEventListener(type, (e) => e.preventDefault(), { once: true })\<close>, the only listener
  it ever adds. The first argument is the \<open>node_id\<close> of the element.
\<close>

datatype dom_call =
    DispatchEvent nat synthetic_event
  | Focus nat
  | AddEventListener nat string

subsection \<open>The world\<close>

text \<open>
  A \<open>change\<close> is one batch of mutation records that the page produces by itself at time
  \<open>at\<close>, with the document that results. \<open>script\<close> lists the changes still to come, in
  the order in which they happen. \<open>page\<close> is the page's synchronous reaction to one of our
  calls: it gets the calls made so far, the last one being the call it reacts to, and
  the document, and returns the new document.

  \<open>observers\<close> logs every \<^verbatim>\<open>observe\<close> and \<^verbatim>\<open>disconnect\<close> on a mutation observer, and
  \<open>timers\<close> holds the safety timers that are scheduled and have not fired: the time at
  which each fires and the observer whose \<^verbatim>\<open>disconnect(); reject(...)\<close> it runs. The
  script never calls \<^verbatim>\<open>clearTimeout\<close>, so a timer leaves \<open>timers\<close> only by firing.
  The timers of \<^verbatim>\<open>waitUntil\<close> and of the pauses between drag-over events are awaited where
  they are set and are not listed. Timers fire at the time they are set for.
\<close>

datatype mutation = ChildList | Attributes nat string | CharacterData

record change =
  at :: nat
  records :: "mutation list"
  result :: document

datatype observer_call = Observe nat | Disconnect nat

record world =
  href :: string
  now :: nat
  doc :: document
  script :: "change list"
  page :: "(nat \<times> dom_call) list \<Rightarrow> document \<Rightarrow> document"
  timers :: "(nat \<times> nat) list"
  observers :: "observer_call list"
  calls :: "(nat \<times> dom_call) list"

definition perform :: "dom_call \<Rightarrow> world \<Rightarrow> world" where
  "perform c w =
     (let cs = calls w @ [(now w, c)] in w\<lparr>calls := cs, doc := page w cs (doc w)\<rparr>)"

definition dispatchEvent :: "element \<Rightarrow> synthetic_event \<Rightarrow> world \<Rightarrow> world" where
  "dispatchEvent el ev w = perform (DispatchEvent (node_id el) ev) w"

definition focus :: "element \<Rightarrow> world \<Rightarrow> world" where
  "focus el w = perform (Focus (node_id el)) w"

definition addEventListener :: "element \<Rightarrow> string \<Rightarrow> world \<Rightarrow> world" where
  "addEventListener el ty w = w\<lparr>calls := calls w @ [(now w, AddEventListener (node_id el) ty)]\<rparr>"

text \<open>
  \<open>fire_due t\<close> runs the safety timers due by time \<open>t\<close>: each disconnects its observer
  (its \<^verbatim>\<open>reject\<close> does nothing when the promise is settled already).
\<close>

definition fire_due :: "nat \<Rightarrow> world \<Rightarrow> world" where
  "fire_due t w =
     w\<lparr>timers := filter (\<lambda>p. t < fst p) (timers w),
       observers := observers w @ map (\<lambda>p. Disconnect (snd p)) (filter (\<lambda>p. fst p \<le> t) (timers w))\<rparr>"

text \<open>\<open>deliver c\<close> lets the page make its next change \<open>c\<close>.\<close>

definition deliver :: "change \<Rightarrow> change list \<Rightarrow> world \<Rightarrow> world" where
  "deliver c rest w =
     fire_due (max (now w) (at c)) (w\<lparr>now := max (now w) (at c), doc := result c, script := rest\<rparr>)"

text \<open>
  \<open>pass_time t\<close> lets time pass until \<open>t\<close> while no observer of the script is connected:
  the page makes its changes due by then.
\<close>

definition pass_time :: "nat \<Rightarrow> world \<Rightarrow> world" where
  "pass_time t w =
     (let due = takeWhile (\<lambda>c. at c \<le> t) (script w)
      in fire_due (max (now w) t)
           (w\<lparr>now := max (now w) t,
              doc := (if due = [] then doc w else result (last due)),
              script := dropWhile (\<lambda>c. at c \<le> t) (script w)\<rparr>))"

subsection \<open>Configuration\<close>

text \<open>\<^verbatim>\<open>config.selectors\<close> and \<^verbatim>\<open>config.maxWaitTime\<close>.\<close>

definition sel_dropTarget :: selector where
  "sel_dropTarget = Group [ClassSel ''DropTarget'']"

definition sel_composerWrapper :: selector where
  "sel_composerWrapper = Group [ClassSel ''composer-wrapper'']"

definition sel_messageContainer :: selector where
  "sel_messageContainer = Group [ClassSel ''input-message-container'']"

definition sel_middleColumn :: selector where
  "sel_middleColumn = Group [ClassSel ''middle-column'']"

definition sel_messageInput :: selector where
  "sel_messageInput = Group [ClassSel ''input-message-input'']"

definition sel_chatContent :: selector where
  "sel_chatContent = Group [ClassSel ''chat-content'', ClassSel ''messages-container'']"

definition sel_previewModal :: selector where
  "sel_previewModal = Group [ClassSel ''modal'', AttrSel ''role'' ''dialog'']"

definition maxWaitTime_dropTarget :: nat where
  "maxWaitTime_dropTarget = 3000"

definition maxWaitTime_preview :: nat where
  "maxWaitTime_preview = 5000"

definition maxWaitTime_sendButton :: nat where
  "maxWaitTime_sendButton = 5000"

definition maxWaitTime_clickResponse :: nat where
  "maxWaitTime_clickResponse = 2000"

subsection \<open>\<^verbatim>\<open>waitUntil\<close>\<close>

text \<open>
  \<^verbatim>\<open>setTimeout(check, checkInterval)\<close> runs \<open>check\<close> again \<open>checkInterval\<close> milliseconds
  later, and at least one millisecond later.
\<close>

definition tick :: "nat \<Rightarrow> world \<Rightarrow> world" where
  "tick checkInterval w = pass_time (now w + max 1 checkInterval) w"

text \<open>
  The function \<open>check\<close> of \<^verbatim>\<open>waitUntil\<close>. The condition is a function of the world that
  may throw. \<open>in_executor\<close> tells the first call, made inside the promise's executor, from
  the later ones, made by a timer: an exception thrown in the executor rejects the promise;
  one thrown in a timer callback is an uncaught error of that callback, no further timer is
  set and the promise is never settled. \<^verbatim>\<open>Date.now() - startTime >= timeout\<close> is written
  without the subtraction.
\<close>

function waitUntil_check ::
  "(world \<Rightarrow> js_error + bool) \<Rightarrow> nat \<Rightarrow> nat \<Rightarrow> nat \<Rightarrow> bool \<Rightarrow> world \<Rightarrow> unit outcome \<times> world" where
  "waitUntil_check condition timeout checkInterval startTime in_executor w =
     (case condition w of
        Inl e \<Rightarrow> (if in_executor then (Rejected e, w) else (Pending, w))
      | Inr True \<Rightarrow> (Fulfilled (), w)
      | Inr False \<Rightarrow>
          (if startTime + timeout \<le> now w
           then (Rejected (Error (''Timeout waiting for condition after '' @ show_nat timeout @ ''ms'')), w)
           else waitUntil_check condition timeout checkInterval startTime False (tick checkInterval w)))"
  by pat_completeness auto
termination
  by (relation "measure (\<lambda>(c, timeout, i, startTime, f, w). startTime + timeout - now w)")
     (auto simp: tick_def pass_time_def fire_due_def Let_def)

declare waitUntil_check.simps [simp del]

definition waitUntil ::
  "(world \<Rightarrow> js_error + bool) \<Rightarrow> nat \<Rightarrow> nat \<Rightarrow> world \<Rightarrow> unit outcome \<times> world" where
  "waitUntil condition timeout checkInterval w =
     waitUntil_check condition timeout checkInterval (now w) True w"

subsection \<open>\<^verbatim>\<open>waitForElement\<close> and \<^verbatim>\<open>waitForClass\<close>\<close>

text \<open>
  Both functions check once, and otherwise return a promise with a mutation observer and a
  safety timer. \<open>observe_until\<close> is the life of that promise: the page makes its changes one
  by one; a change before the deadline whose records the observer was subscribed to runs
  the observer's callback, which on success disconnects the observer and resolves; at the
  deadline the timer fires, which disconnects the observer and rejects. The timer is never
  cleared, so after a success it stays in \<open>timers\<close>.
\<close>

definition next_observer :: "world \<Rightarrow> nat" where
  "next_observer w = length (observers w)"

definition observe :: "nat \<Rightarrow> world \<Rightarrow> world" where
  "observe ob w = w\<lparr>observers := observers w @ [Observe ob]\<rparr>"

definition disconnect :: "nat \<Rightarrow> world \<Rightarrow> world" where
  "disconnect ob w = w\<lparr>observers := observers w @ [Disconnect ob]\<rparr>"

definition setTimeout :: "nat \<Rightarrow> nat \<Rightarrow> world \<Rightarrow> world" where
  "setTimeout timeout ob w = w\<lparr>timers := timers w @ [(now w + timeout, ob)]\<rparr>"

definition timer_fires :: "nat \<Rightarrow> world \<Rightarrow> world" where
  "timer_fires deadline w = fire_due (max (now w) deadline) (w\<lparr>now := max (now w) deadline\<rparr>)"

primrec observe_until ::
  "nat \<Rightarrow> (mutation list \<Rightarrow> bool) \<Rightarrow> (world \<Rightarrow> 'a option) \<Rightarrow> js_error \<Rightarrow> nat \<Rightarrow> change list \<Rightarrow> world
     \<Rightarrow> 'a outcome \<times> world" where
  "observe_until ob notified found err deadline [] w = (Rejected err, timer_fires deadline w)"
| "observe_until ob notified found err deadline (c # cs) w =
     (if max (now w) (at c) < deadline then
        (let w' = deliver c cs w in
         if notified (records c) then
           (case found w' of
              Some x \<Rightarrow> (Fulfilled x, disconnect ob w')
            | None \<Rightarrow> observe_until ob notified found err deadline cs w')
         else observe_until ob notified found err deadline cs w')
      else (Rejected err, timer_fires deadline w))"

text \<open>
  The observer of \<^verbatim>\<open>waitForElement\<close> watches \<^verbatim>\<open>document.body\<close> with
  \<^verbatim>\<open>childList, subtree, attributes, attributeFilter: ['class', 'style']\<close>.
\<close>

fun body_observer_notified :: "mutation \<Rightarrow> bool" where
  "body_observer_notified ChildList = True"
| "body_observer_notified (Attributes n a) = (a = ''class'' \<or> a = ''style'')"
| "body_observer_notified CharacterData = False"

definition found_element :: "selector \<Rightarrow> world \<Rightarrow> element option" where
  "found_element selector w = (case querySelector selector (doc w) of Inl e \<Rightarrow> None | Inr r \<Rightarrow> r)"

definition waitForElement :: "selector \<Rightarrow> nat \<Rightarrow> world \<Rightarrow> element outcome \<times> world" where
  "waitForElement selector timeout w =
     (case querySelector selector (doc w) of
        Inl e \<Rightarrow> (Rejected e, w)
      | Inr (Some existingElement) \<Rightarrow> (Fulfilled existingElement, w)
      | Inr None \<Rightarrow>
          (let ob = next_observer w;
               w1 = observe ob w;
               w2 = setTimeout timeout ob w1
           in observe_until ob (list_ex body_observer_notified) (found_element selector)
                (Error (''Element not found: '' @ css selector @ '' (timeout after ''
                          @ show_nat timeout @ ''ms)''))
                (now w + timeout) (script w2) w2))"

text \<open>
  The element object that \<^verbatim>\<open>waitForClass\<close> holds is live: its class list is the one it
  has in the current document, or the one it had when it left the document. Its observer
  watches the element with \<^verbatim>\<open>attributes, attributeFilter: ['class']\<close>.
\<close>

definition current :: "element \<Rightarrow> world \<Rightarrow> element" where
  "current el w = (case find (\<lambda>e. node_id e = node_id el) (doc w) of Some e \<Rightarrow> e | None \<Rightarrow> el)"

definition classList_contains :: "element \<Rightarrow> string \<Rightarrow> world \<Rightarrow> bool" where
  "classList_contains el cls w = (cls \<in> set (classList (current el w)))"

definition waitForClass :: "element \<Rightarrow> string \<Rightarrow> nat \<Rightarrow> world \<Rightarrow> unit outcome \<times> world" where
  "waitForClass el cls timeout w =
     (if classList_contains el cls w then (Fulfilled (), w)
      else
        (let ob = next_observer w;
             w1 = observe ob w;
             w2 = setTimeout timeout ob w1
         in observe_until ob (\<lambda>ms. Attributes (node_id el) ''class'' \<in> set ms)
              (\<lambda>w'. if classList_contains el cls w' then Some () else None)
              (Error (''Class '' @ [CHR 0x22] @ cls @ [CHR 0x22] @ '' did not appear within ''
                        @ show_nat timeout @ ''ms''))
              (now w + timeout) (script w2) w2))"

definition waitForPreviewModal :: "world \<Rightarrow> element outcome \<times> world" where
  "waitForPreviewModal w = waitForElement sel_previewModal maxWaitTime_preview w"

subsection \<open>\<^verbatim>\<open>arrayBufferToFile\<close>, \<^verbatim>\<open>findDropZone\<close>, \<^verbatim>\<open>createDataTransfer\<close>\<close>

text \<open>
  The buffer arrives over the message bus as an array of numbers. \<^verbatim>\<open>Uint8Array\<close> reduces
  each modulo 256; \<^verbatim>\<open>Blob\<close> and \<^verbatim>\<open>File\<close> keep a type of printable ASCII characters in
  lower case and replace any other by the empty string. On an array of numbers none of the
  three constructors throws, so the \<^verbatim>\<open>catch\<close> of \<^verbatim>\<open>arrayBufferToFile\<close> is never
  entered; the result is a sum because the caller treats the call as one that may throw.
  The last argument is \<^verbatim>\<open>Date.now()\<close>.
\<close>

definition normalized_type :: "string \<Rightarrow> string" where
  "normalized_type t =
     (if list_all (\<lambda>c. (32::nat) \<le> of_char c \<and> of_char c \<le> (126::nat)) t then toLowerCase t else [])"

definition arrayBufferToFile :: "nat list \<Rightarrow> string \<Rightarrow> string \<Rightarrow> nat \<Rightarrow> js_error + file_object" where
  "arrayBufferToFile arrayBuffer filename mimeType t =
     (let uint8Array = map (\<lambda>x. x mod 256) arrayBuffer
      in Inr \<lparr>file_name = filename, file_type = normalized_type mimeType,
               file_bytes = uint8Array, lastModified = t\<rparr>)"

fun findDropZone_loop :: "selector list \<Rightarrow> document \<Rightarrow> js_error + element option" where
  "findDropZone_loop [] d = Inr None"
| "findDropZone_loop (selector # selectors) d =
     (case querySelector selector d of
        Inl e \<Rightarrow> Inl e
      | Inr (Some el) \<Rightarrow> Inr (Some el)
      | Inr None \<Rightarrow> findDropZone_loop selectors d)"

definition findDropZone :: "world \<Rightarrow> js_error + element" where
  "findDropZone w =
     (case findDropZone_loop
             [sel_composerWrapper, sel_messageContainer, sel_middleColumn, sel_messageInput] (doc w) of
        Inl e \<Rightarrow> Inl e
      | Inr (Some el) \<Rightarrow> Inr el
      | Inr None \<Rightarrow> Inl (Error ''No drop zone found. Make sure you have a chat open.''))"

definition createDataTransfer :: "file_object \<Rightarrow> data_transfer" where
  "createDataTransfer f = \<lparr>files = [f], effectAllowed = ''all'', dropEffect = ''copy''\<rparr>"

subsection \<open>\<^verbatim>\<open>uploadViaDragAndDrop\<close>\<close>

text \<open>\<^verbatim>\<open>await new Promise(resolve => setTimeout(resolve, ms))\<close>.\<close>

definition sleep :: "nat \<Rightarrow> world \<Rightarrow> world" where
  "sleep ms w = pass_time (now w + ms) w"

text \<open>One round of the loop \<^verbatim>\<open>for (let i = 0; i < 3; i++)\<close>.\<close>

definition dragover_round :: "element \<Rightarrow> data_transfer \<Rightarrow> nat \<Rightarrow> world \<Rightarrow> world" where
  "dragover_round dropZone dataTransfer i w =
     (let w1 = addEventListener dropZone ''dragover'' w;
          w2 = dispatchEvent dropZone (DragEvent ''dragover'' dataTransfer) w1
      in if i < 2 then sleep 50 w2 else w2)"

text \<open>
  The world after steps 3 to 5 on a drop zone: the three drag-over rounds, the drop event
  after its listener, and the drag-leave event.
\<close>

definition drop_events :: "element \<Rightarrow> data_transfer \<Rightarrow> world \<Rightarrow> world" where
  "drop_events dropZone dataTransfer w =
     (let w3 = fold (dragover_round dropZone dataTransfer) [0, 1, 2] w;
          w4 = addEventListener dropZone ''drop'' w3;
          w5 = dispatchEvent dropZone (DragEvent ''drop'' dataTransfer) w4
      in dispatchEvent dropZone (DragEvent ''dragleave'' dataTransfer) w5)"

text \<open>
  Steps 3 to 6, from the first drag-over event on, with the drop zone chosen in step 2.
\<close>

definition drop_on :: "element \<Rightarrow> data_transfer \<Rightarrow> world \<Rightarrow> bool outcome \<times> world" where
  "drop_on dropZone dataTransfer w =
     (let w3 = fold (dragover_round dropZone dataTransfer) [0, 1, 2] w;
          w4 = addEventListener dropZone ''drop'' w3;
          w5 = dispatchEvent dropZone (DragEvent ''drop'' dataTransfer) w4;
          w6 = dispatchEvent dropZone (DragEvent ''dragleave'' dataTransfer) w5
      in case waitForPreviewModal w6 of
           (Fulfilled modal, w7) \<Rightarrow> (Fulfilled True, w7)
         | (Rejected e, w7) \<Rightarrow> (Rejected e, w7)
         | (Pending, w7) \<Rightarrow> (Pending, w7))"

text \<open>
  The outer \<^verbatim>\<open>catch\<close> throws the error it caught again. The \<^verbatim>\<open>catch\<close> of step 2 keeps
  the drop zone found first.
\<close>

definition uploadViaDragAndDrop :: "file_object \<Rightarrow> world \<Rightarrow> bool outcome \<times> world" where
  "uploadViaDragAndDrop f w =
     (case findDropZone w of
        Inl e \<Rightarrow> (Rejected e, w)
      | Inr dropZone \<Rightarrow>
          (let dataTransfer = createDataTransfer f;
               w1 = dispatchEvent dropZone (DragEvent ''dragenter'' dataTransfer) w
           in case waitForElement sel_dropTarget maxWaitTime_dropTarget w1 of
                (Fulfilled dropTarget, w2) \<Rightarrow> drop_on dropTarget dataTransfer w2
              | (Rejected e, w2) \<Rightarrow> drop_on dropZone dataTransfer w2
              | (Pending, w2) \<Rightarrow> (Pending, w2)))"

subsection \<open>\<^verbatim>\<open>performClick\<close> and \<^verbatim>\<open>clickSendButton\<close>\<close>

text \<open>
  \<^verbatim>\<open>focus\<close> and \<^verbatim>\<open>dispatchEvent\<close> on an element do not throw, so the \<^verbatim>\<open>catch\<close> of
  \<^verbatim>\<open>performClick\<close> is never entered.
\<close>

definition performClick :: "element \<Rightarrow> world \<Rightarrow> world" where
  "performClick el w =
     (let w1 = focus el w;
          w2 = dispatchEvent el (KeyboardEvent ''keydown'' ''Enter'' ''Enter'' 13) w1
      in dispatchEvent el (KeyboardEvent ''keyup'' ''Enter'' ''Enter'' 13) w2)"

definition button_text :: "element \<Rightarrow> string" where
  "button_text btn = toLowerCase (trim (textContent btn))"

definition is_primary_send :: "element \<Rightarrow> bool" where
  "is_primary_send btn =
     (let text = button_text btn; isPrimary = str_includes (className btn) ''primary''
      in text = ''send'' \<and> isPrimary)"

definition is_send :: "element \<Rightarrow> bool" where
  "is_send btn = (button_text btn = ''send'')"

definition is_Button_send :: "element \<Rightarrow> bool" where
  "is_Button_send btn =
     (let text = button_text btn; hasButtonClass = str_includes (className btn) ''Button''
      in text = ''send'' \<and> hasButtonClass)"

text \<open>
  \<^verbatim>\<open>Array.from(document.querySelectorAll('button')).filter(btn => btn.offsetParent !== null)\<close>.
\<close>

definition visibleButtons :: "document \<Rightarrow> js_error + element list" where
  "visibleButtons d =
     (case querySelectorAll (Group [TypeSel ''button'']) d of
        Inl e \<Rightarrow> Inl e
      | Inr buttons \<Rightarrow> Inr (filter (\<lambda>btn. offsetParent btn \<noteq> None) buttons))"

text \<open>The condition of the first \<^verbatim>\<open>waitUntil\<close>.\<close>

definition sendButton_available :: "world \<Rightarrow> js_error + bool" where
  "sendButton_available w =
     (case visibleButtons (doc w) of
        Inl e \<Rightarrow> Inl e
      | Inr vs \<Rightarrow> Inr (find is_primary_send vs \<noteq> None))"

text \<open>The choice of the send button among the visible buttons, with its two fallbacks.\<close>

definition find_sendButton :: "element list \<Rightarrow> element option" where
  "find_sendButton vs =
     (let sendButton = find is_primary_send vs;
          sendButton = (if sendButton = None then find is_send vs else sendButton);
          sendButton = (if sendButton = None then find is_Button_send vs else sendButton)
      in sendButton)"

text \<open>The condition of the second \<^verbatim>\<open>waitUntil\<close>.\<close>

definition preview_closed :: "world \<Rightarrow> js_error + bool" where
  "preview_closed w =
     (case querySelector sel_previewModal (doc w) of
        Inl e \<Rightarrow> Inl e
      | Inr None \<Rightarrow> Inr True
      | Inr (Some modal) \<Rightarrow> Inr (style_display modal = ''none''))"

definition failed_to_click :: "js_error \<Rightarrow> js_error" where
  "failed_to_click e = Error (''Failed to click send: '' @ error_message e)"

text \<open>
  \<^verbatim>\<open>waitUntil\<close> is called with its default \<^verbatim>\<open>checkInterval\<close> of 100. The inner \<^verbatim>\<open>catch\<close>
  drops the rejection of the second wait.
\<close>

definition clickSendButton :: "world \<Rightarrow> unit outcome \<times> world" where
  "clickSendButton w =
     (case waitUntil sendButton_available maxWaitTime_sendButton 100 w of
        (Rejected e, w1) \<Rightarrow> (Rejected (failed_to_click e), w1)
      | (Pending, w1) \<Rightarrow> (Pending, w1)
      | (Fulfilled u, w1) \<Rightarrow>
          (case visibleButtons (doc w1) of
             Inl e \<Rightarrow> (Rejected (failed_to_click e), w1)
           | Inr vs \<Rightarrow>
               (case find_sendButton vs of
                  None \<Rightarrow>
                    (Rejected (failed_to_click
                       (Error ''Send button not found despite passing waitUntil check'')), w1)
                | Some sendButton \<Rightarrow>
                    (let w2 = performClick sendButton w1
                     in case waitUntil preview_closed maxWaitTime_clickResponse 100 w2 of
                          (Pending, w3) \<Rightarrow> (Pending, w3)
                        | (Fulfilled u', w3) \<Rightarrow> (Fulfilled (), w3)
                        | (Rejected e, w3) \<Rightarrow> (Fulfilled (), w3)))))"

subsection \<open>\<^verbatim>\<open>uploadPhoto\<close>\<close>

text \<open>
  The job's \<^verbatim>\<open>data\<close>: \<open>None\<close> is \<^verbatim>\<open>null\<close> or \<^verbatim>\<open>undefined\<close>, for the object and for each of
  its fields. An array is truthy, also the empty one; the empty string is falsy.
\<close>

record upload_data =
  arrayBuffer :: "nat list option"
  filename :: "string option"
  mimeType :: "string option"

text \<open>\<^verbatim>\<open>value || fallback\<close> on a string that may be missing.\<close>

definition or_default :: "string option \<Rightarrow> string \<Rightarrow> string" where
  "or_default v fallback = (case v of None \<Rightarrow> fallback | Some s \<Rightarrow> if s = [] then fallback else s)"

text \<open>
  The response object: \<^verbatim>\<open>success\<close>, and \<^verbatim>\<open>error\<close>, \<^verbatim>\<open>message\<close>, \<^verbatim>\<open>duration\<close> where the
  object has them.
\<close>

record response =
  success :: bool
  error :: "string option"
  message :: "string option"
  duration :: "int option"

text \<open>The validation and conversion at the head of the \<^verbatim>\<open>try\<close> block.\<close>

definition uploadPhoto_file :: "upload_data option \<Rightarrow> nat \<Rightarrow> js_error + file_object" where
  "uploadPhoto_file data t =
     (case data of
        None \<Rightarrow> Inl (Error ''Invalid data: arrayBuffer is required'')
      | Some d \<Rightarrow>
          (case arrayBuffer d of
             None \<Rightarrow> Inl (Error ''Invalid data: arrayBuffer is required'')
           | Some buffer \<Rightarrow>
               arrayBufferToFile buffer (or_default (filename d) ''image.png'')
                 (or_default (mimeType d) ''image/png'') t))"

text \<open>The \<^verbatim>\<open>try\<close> block up to its \<^verbatim>\<open>return\<close>.\<close>

definition uploadPhoto_try :: "upload_data option \<Rightarrow> world \<Rightarrow> unit outcome \<times> world" where
  "uploadPhoto_try data w =
     (case uploadPhoto_file data (now w) of
        Inl e \<Rightarrow> (Rejected e, w)
      | Inr f \<Rightarrow>
          (case uploadViaDragAndDrop f w of
             (Rejected e, w1) \<Rightarrow> (Rejected e, w1)
           | (Pending, w1) \<Rightarrow> (Pending, w1)
           | (Fulfilled b, w1) \<Rightarrow> clickSendButton w1))"

definition uploadPhoto :: "upload_data option \<Rightarrow> world \<Rightarrow> response outcome \<times> world" where
  "uploadPhoto data w =
     (let startTime = now w
      in case uploadPhoto_try data w of
           (Fulfilled u, w') \<Rightarrow>
             (Fulfilled \<lparr>success = True, error = None,
                         message = Some ''Photo uploaded successfully'',
                         duration = Some (int (now w') - int startTime)\<rparr>, w')
         | (Rejected e, w') \<Rightarrow>
             (Fulfilled \<lparr>success = False, error = Some (error_message e), message = None,
                         duration = Some (int (now w') - int startTime)\<rparr>, w')
         | (Pending, w') \<Rightarrow> (Pending, w'))"

definition isValidTelegramPage :: "world \<Rightarrow> bool" where
  "isValidTelegramPage w =
     (let url = href w;
          isWebTelegram = str_includes url ''web.telegram.org'';
          hasChatContent = (querySelector sel_chatContent (doc w) \<noteq> Inr None)
      in isWebTelegram \<and> hasChatContent)"

subsection \<open>The message listener\<close>

text \<open>
  A request has an \<^verbatim>\<open>action\<close>, a string or one of the other values a message can carry
  there, and may have \<^verbatim>\<open>data\<close>. \<open>to_string\<close> is the conversion of a template literal.
  The listener returns the response it passes to \<^verbatim>\<open>sendResponse\<close>, \<open>None\<close> when it never
  calls it.
\<close>

datatype js_value = JUndefined | JNull | JBool bool | JString string

fun to_string :: "js_value \<Rightarrow> string" where
  "to_string JUndefined = ''undefined''"
| "to_string JNull = ''null''"
| "to_string (JBool b) = (if b then ''true'' else ''false'')"
| "to_string (JString s) = s"

record request =
  action :: js_value
  data :: "upload_data option"

definition onMessage :: "request \<Rightarrow> world \<Rightarrow> response option \<times> world" where
  "onMessage request w =
     (if action request = JString ''uploadPhoto'' then
        (if \<not> isValidTelegramPage w then
           (Some \<lparr>success = False,
                   error = Some ''Not on a valid Telegram chat page. Please open a chat first.'',
                   message = None, duration = None\<rparr>, w)
         else
           (case uploadPhoto (data request) w of
              (Fulfilled r, w') \<Rightarrow> (Some r, w')
            | (Rejected e, w') \<Rightarrow>
                (Some \<lparr>success = False, error = Some (''Unexpected error: '' @ error_message e),
                        message = None, duration = None\<rparr>, w')
            | (Pending, w') \<Rightarrow> (None, w')))
      else if action request = JString ''ping'' then
        (Some \<lparr>success = True, error = None, message = Some ''Content script is ready'',
                duration = None\<rparr>, w)
      else
        (Some \<lparr>success = False, error = Some (''Unknown action: '' @ to_string (action request)),
                message = None, duration = None\<rparr>, w))"

subsection \<open>Sample pages\<close>

text \<open>
  A page that does not react to our calls, a chat with a composer, and the same chat with
  the preview dialog open: a secondary and a primary button, both reading \<^verbatim>\<open>Send\<close>.
\<close>

definition idle_page :: "(nat \<times> dom_call) list \<Rightarrow> document \<Rightarrow> document" where
  "idle_page cs d = d"

definition el_chat :: element where
  "el_chat = \<lparr>node_id = 1, tagName = ''div'', className = ''chat-content'', textContent = [],
               offsetParent = Some 0, attributes = [], style_display = []\<rparr>"

definition el_composer :: element where
  "el_composer = \<lparr>node_id = 2, tagName = ''div'', className = ''composer-wrapper shown'',
                   textContent = [], offsetParent = Some 0, attributes = [], style_display = []\<rparr>"

definition el_modal :: element where
  "el_modal = \<lparr>node_id = 3, tagName = ''div'', className = ''Modal'',
                textContent = ''Send Photo Send Send'', offsetParent = Some 0,
                attributes = [(''role'', ''dialog'')], style_display = []\<rparr>"

definition el_secondary :: element where
  "el_secondary = \<lparr>node_id = 4, tagName = ''button'', className = ''Button secondary'',
                    textContent = '' Send '', offsetParent = Some 3, attributes = [],
                    style_display = []\<rparr>"

definition el_primary :: element where
  "el_primary = \<lparr>node_id = 5, tagName = ''button'', className = ''Button primary'',
                  textContent = ''Send'', offsetParent = Some 3, attributes = [],
                  style_display = []\<rparr>"

definition el_target :: element where
  "el_target = \<lparr>node_id = 6, tagName = ''div'', className = ''DropTarget'', textContent = [],
                 offsetParent = Some 2, attributes = [], style_display = []\<rparr>"

text \<open>A primary button whose text is padded with no-break spaces.\<close>

definition el_nbsp :: element where
  "el_nbsp = \<lparr>node_id = 7, tagName = ''button'', className = ''Button primary'',
               textContent = [CHR 0xA0] @ ''Send'' @ [CHR 0xA0], offsetParent = Some 3,
               attributes = [], style_display = []\<rparr>"

definition chat_doc :: document where
  "chat_doc = [el_chat, el_composer]"

definition modal_doc :: document where
  "modal_doc = [el_chat, el_composer, el_modal, el_secondary, el_primary]"

definition target_doc :: document where
  "target_doc = [el_chat, el_composer, el_target]"

text \<open>
  In \<open>chat_world\<close> no element of class \<^verbatim>\<open>DropTarget\<close> ever appears; the dialog opens at
  time 3200 and closes at time 3250. In \<open>target_world\<close> the drop target appears at time 10.
  \<open>wrong_host_world\<close> is the same chat under another host, \<open>two_send_world\<close> the chat
  with the dialog open already.
\<close>

definition chat_script :: "change list" where
  "chat_script = [\<lparr>at = 3200, records = [ChildList], result = modal_doc\<rparr>,
                  \<lparr>at = 3250, records = [ChildList], result = chat_doc\<rparr>]"

definition chat_world :: world where
  "chat_world = \<lparr>href = ''https://web.telegram.org/a/'', now = 0, doc = chat_doc,
     script = chat_script, page = idle_page, timers = [], observers = [], calls = []\<rparr>"

definition target_world :: world where
  "target_world = chat_world\<lparr>script := [\<lparr>at = 10, records = [ChildList], result = target_doc\<rparr>]\<rparr>"

definition wrong_host_world :: world where
  "wrong_host_world = chat_world\<lparr>href := ''https://example.org/''\<rparr>"

definition two_send_world :: world where
  "two_send_world = chat_world\<lparr>doc := modal_doc\<rparr>"

definition foo_request :: request where
  "foo_request = \<lparr>action = JString ''foo'', data = None\<rparr>"

definition png_job :: upload_data where
  "png_job = \<lparr>arrayBuffer = Some [137, 80, 78, 71], filename = None, mimeType = Some []\<rparr>"

definition no_buffer_job :: upload_data where
  "no_buffer_job = \<lparr>arrayBuffer = None, filename = Some ''a.png'', mimeType = Some ''image/png''\<rparr>"

definition png_file :: file_object where
  "png_file = \<lparr>file_name = ''image.png'', file_type = ''image/png'',
                file_bytes = [137, 80, 78, 71], lastModified = 0\<rparr>"

definition upload_request :: request where
  "upload_request = \<lparr>action = JString ''uploadPhoto'', data = Some png_job\<rparr>"

text \<open>Two conditions that throw: one on every evaluation, one from time 100 on.\<close>

definition always_throws :: "world \<Rightarrow> js_error + bool" where
  "always_throws w = Inl (Error ''boom'')"

definition throws_later :: "world \<Rightarrow> js_error + bool" where
  "throws_later w = (if now w < 100 then Inr False else Inl (Error ''boom''))"

subsection \<open>Notions of the specification\<close>

text \<open>
  The sequence of calls the specification asks of the drag-and-drop sequencer: one enter
  event on the surface at time \<open>t0\<close>; then on the target, from time \<open>t\<close> on, three over
  events 50 milliseconds apart, a drop event and a leave event, each over event and the drop
  event right after a one-shot listener that suppresses default handling was added for it.
\<close>

definition drag_sequence :: "nat \<Rightarrow> nat \<Rightarrow> nat \<Rightarrow> nat \<Rightarrow> data_transfer \<Rightarrow> (nat \<times> dom_call) list" where
  "drag_sequence t0 surface t target dt =
     [(t0, DispatchEvent surface (DragEvent ''dragenter'' dt)),
      (t, AddEventListener target ''dragover''),
      (t, DispatchEvent target (DragEvent ''dragover'' dt)),
      (t + 50, AddEventListener target ''dragover''),
      (t + 50, DispatchEvent target (DragEvent ''dragover'' dt)),
      (t + 100, AddEventListener target ''dragover''),
      (t + 100, DispatchEvent target (DragEvent ''dragover'' dt)),
      (t + 100, AddEventListener target ''drop''),
      (t + 100, DispatchEvent target (DragEvent ''drop'' dt)),
      (t + 100, DispatchEvent target (DragEvent ''dragleave'' dt))]"

text \<open>The calls of \<^verbatim>\<open>performClick\<close> on a button at time \<open>t\<close>.\<close>

definition click_calls :: "nat \<Rightarrow> nat \<Rightarrow> (nat \<times> dom_call) list" where
  "click_calls t button =
     [(t, Focus button),
      (t, DispatchEvent button (KeyboardEvent ''keydown'' ''Enter'' ''Enter'' 13)),
      (t, DispatchEvent button (KeyboardEvent ''keyup'' ''Enter'' ''Enter'' 13))]"

text \<open>The messages with which an upload can fail.\<close>

definition preview_timeout :: js_error where
  "preview_timeout = Error (''Element not found: '' @ css sel_previewModal @ '' (timeout after 5000ms)'')"

definition failure_messages :: "string list" where
  "failure_messages =
     [''Invalid data: arrayBuffer is required'',
      ''No drop zone found. Make sure you have a chat open.'',
      error_message preview_timeout,
      ''Failed to click send: Timeout waiting for condition after 5000ms'',
      ''Failed to click send: Send button not found despite passing waitUntil check'']"

text \<open>
  Bookkeeping of one observer: how often it was subscribed and released, and which of the
  scheduled timers are its own. An observer number is unused when it occurs nowhere;
  \<open>next_observer\<close> is the length of the log, so in a world reached from one with empty
  logs it is unused.
\<close>

definition subscriptions :: "nat \<Rightarrow> world \<Rightarrow> nat" where
  "subscriptions ob w = length (filter (\<lambda>c. c = Observe ob) (observers w))"

definition releases :: "nat \<Rightarrow> world \<Rightarrow> nat" where
  "releases ob w = length (filter (\<lambda>c. c = Disconnect ob) (observers w))"

definition scheduled :: "nat \<Rightarrow> world \<Rightarrow> (nat \<times> nat) list" where
  "scheduled ob w = filter (\<lambda>p. snd p = ob) (timers w)"

definition unused :: "nat \<Rightarrow> world \<Rightarrow> bool" where
  "unused ob w = (subscriptions ob w = 0 \<and> releases ob w = 0 \<and> scheduled ob w = [])"

section \<open>Properties\<close>

subsection \<open>Clock and calls\<close>

text \<open>Waiting changes neither the order of time nor the log of calls.\<close>

lemma now_fire_due [simp]: "now (fire_due t w) = now w"
  by (simp add: fire_due_def)

lemma now_pass_time [simp]: "now (pass_time t w) = max (now w) t"
  by (simp add: pass_time_def Let_def)

lemma now_deliver [simp]: "now (deliver c cs w) = max (now w) (at c)"
  by (simp add: deliver_def)

lemma now_perform [simp]: "now (perform c w) = now w"
  by (simp add: perform_def Let_def)

lemma now_addEventListener [simp]: "now (addEventListener el ty w) = now w"
  by (simp add: addEventListener_def)

lemma now_sleep [simp]: "now (sleep ms w) = now w + ms"
  by (simp add: sleep_def)

lemma calls_fire_due [simp]: "calls (fire_due t w) = calls w"
  by (simp add: fire_due_def)

lemma calls_pass_time [simp]: "calls (pass_time t w) = calls w"
  by (simp add: pass_time_def Let_def)

lemma calls_deliver [simp]: "calls (deliver c cs w) = calls w"
  by (simp add: deliver_def)

lemma calls_timer_fires [simp]: "calls (timer_fires t w) = calls w"
  by (simp add: timer_fires_def)

lemma calls_tick [simp]: "calls (tick i w) = calls w"
  by (simp add: tick_def)

lemma calls_perform [simp]: "calls (perform c w) = calls w @ [(now w, c)]"
  by (simp add: perform_def Let_def)

lemma calls_addEventListener [simp]:
  "calls (addEventListener el ty w) = calls w @ [(now w, AddEventListener (node_id el) ty)]"
  by (simp add: addEventListener_def)

lemma calls_sleep [simp]: "calls (sleep ms w) = calls w"
  by (simp add: sleep_def)

lemma calls_waitUntil_check:
  "calls (snd (waitUntil_check c t i s f w)) = calls w"
proof (induction c t i s f w rule: waitUntil_check.induct)
  case (1 c t i s f w)
  show ?case
    by (subst waitUntil_check.simps) (use 1 in \<open>auto split: sum.splits bool.splits\<close>)
qed

lemma calls_waitUntil [simp]: "calls (snd (waitUntil c t i w)) = calls w"
  by (simp add: waitUntil_def calls_waitUntil_check)

lemma calls_observe_until [simp]:
  "calls (snd (observe_until ob n f e dl cs w)) = calls w"
  by (induction cs arbitrary: w) (auto simp: Let_def disconnect_def split: option.splits)

lemma calls_waitForElement [simp]: "calls (snd (waitForElement s t w)) = calls w"
  by (auto simp: waitForElement_def Let_def observe_def setTimeout_def split: sum.splits option.splits)

lemma calls_waitForClass [simp]: "calls (snd (waitForClass el c t w)) = calls w"
  by (auto simp: waitForClass_def Let_def observe_def setTimeout_def)

subsection \<open>How the waits end\<close>

lemma observe_until_settles: "fst (observe_until ob n f e dl cs w) \<noteq> Pending"
  by (induction cs arbitrary: w) (auto simp: Let_def split: option.splits)

lemma observe_until_rejects: "fst (observe_until ob n f e dl cs w) = Rejected e' \<Longrightarrow> e' = e"
  by (induction cs arbitrary: w) (auto simp: Let_def split: option.splits if_splits)

lemma observe_until_rejected_now:
  "observe_until ob n f err dl cs w = (Rejected e, w') \<Longrightarrow> now w \<le> dl \<Longrightarrow> now w' = dl"
proof (induction cs arbitrary: w)
  case Nil
  then show ?case by (auto simp: timer_fires_def)
next
  case (Cons c cs)
  show ?case
  proof (cases "max (now w) (at c) < dl")
    case False
    then show ?thesis using Cons.prems by (auto simp: timer_fires_def)
  next
    case True
    then have "observe_until ob n f err dl cs (deliver c cs w) = (Rejected e, w')"
      using Cons.prems(1) by (auto simp: Let_def split: if_splits option.splits)
    moreover have "now (deliver c cs w) \<le> dl" using True by simp
    ultimately show ?thesis by (rule Cons.IH)
  qed
qed

lemma observe_until_fulfilled:
  "observe_until ob n found err dl cs w = (Fulfilled x, w') \<Longrightarrow>
   \<exists>w''. found w'' = Some x \<and> w' = disconnect ob w''"
  by (induction cs arbitrary: w) (auto simp: Let_def split: if_splits option.splits)

lemma waitForElement_settles: "fst (waitForElement s t w) \<noteq> Pending"
  by (auto simp: waitForElement_def Let_def observe_until_settles split: sum.splits option.splits)

lemma waitForElement_no_Pending: "waitForElement s t w \<noteq> (Pending, w')"
  using waitForElement_settles [of s t w] by auto

lemma waitForElement_rejects:
  "waitForElement (Group ss) t w = (Rejected e, w') \<Longrightarrow>
   e = Error (''Element not found: '' @ css (Group ss) @ '' (timeout after '' @ show_nat t @ ''ms)'')"
proof (cases "find (matches ss) (doc w)")
  case None
  assume a: "waitForElement (Group ss) t w = (Rejected e, w')"
  let ?w2 = "setTimeout t (next_observer w) (observe (next_observer w) w)"
  let ?err = "Error (''Element not found: '' @ css (Group ss) @ '' (timeout after '' @ show_nat t @ ''ms)'')"
  have "fst (observe_until (next_observer w) (list_ex body_observer_notified)
          (found_element (Group ss)) ?err (now w + t) (script ?w2) ?w2) = Rejected e"
    using a None by (simp add: waitForElement_def Let_def)
  then show ?thesis by (rule observe_until_rejects)
next
  case (Some x)
  assume "waitForElement (Group ss) t w = (Rejected e, w')"
  then show ?thesis using Some by (simp add: waitForElement_def)
qed

lemma waitForElement_rejected_now:
  assumes "waitForElement (Group ss) t w = (Rejected e, w')"
  shows "now w' = now w + t"
proof (cases "find (matches ss) (doc w)")
  case None
  let ?w2 = "setTimeout t (next_observer w) (observe (next_observer w) w)"
  have "observe_until (next_observer w) (list_ex body_observer_notified) (found_element (Group ss))
          (Error (''Element not found: '' @ css (Group ss) @ '' (timeout after '' @ show_nat t @ ''ms)''))
          (now w + t) (script ?w2) ?w2 = (Rejected e, w')"
    using assms None by (simp add: waitForElement_def Let_def)
  moreover have "now ?w2 \<le> now w + t" by (simp add: setTimeout_def observe_def)
  ultimately show ?thesis by (rule observe_until_rejected_now)
next
  case (Some x)
  then show ?thesis using assms by (simp add: waitForElement_def)
qed

lemma waitForElement_fulfilled:
  assumes "waitForElement (Group ss) t w = (Fulfilled x, w')"
  shows "querySelector (Group ss) (doc w') = Inr (Some x)"
proof (cases "find (matches ss) (doc w)")
  case None
  let ?w2 = "setTimeout t (next_observer w) (observe (next_observer w) w)"
  have "observe_until (next_observer w) (list_ex body_observer_notified) (found_element (Group ss))
          (Error (''Element not found: '' @ css (Group ss) @ '' (timeout after '' @ show_nat t @ ''ms)''))
          (now w + t) (script ?w2) ?w2 = (Fulfilled x, w')"
    using assms None by (simp add: waitForElement_def Let_def)
  from observe_until_fulfilled [OF this]
  obtain w'' where "found_element (Group ss) w'' = Some x" "w' = disconnect (next_observer w) w''"
    by blast
  then show ?thesis by (simp add: found_element_def disconnect_def)
next
  case (Some y)
  then show ?thesis using assms by (auto simp: waitForElement_def)
qed

lemma waitUntil_check_settles:
  "(\<forall>w. \<exists>b. c w = Inr b) \<Longrightarrow> fst (waitUntil_check c t i s f w) \<noteq> Pending"
proof (induction c t i s f w rule: waitUntil_check.induct)
  case (1 c t i s f w)
  from "1.prems" obtain b where b: "c w = Inr b" by blast
  show ?case
  proof (cases "b \<or> s + t \<le> now w")
    case True
    then show ?thesis using b by (subst waitUntil_check.simps) (auto split: bool.splits)
  next
    case False
    then have "fst (waitUntil_check c t i s False (tick i w)) \<noteq> Pending"
      using b "1.IH" [of False] "1.prems" by auto
    then show ?thesis using b False by (subst waitUntil_check.simps) (auto split: bool.splits)
  qed
qed

lemma waitUntil_check_rejects:
  "(\<forall>w. \<exists>b. c w = Inr b) \<Longrightarrow> fst (waitUntil_check c t i s f w) = Rejected e \<Longrightarrow>
   e = Error (''Timeout waiting for condition after '' @ show_nat t @ ''ms'')"
proof (induction c t i s f w rule: waitUntil_check.induct)
  case (1 c t i s f w)
  from "1.prems" obtain b where b: "c w = Inr b" by blast
  show ?case
  proof (cases "b \<or> s + t \<le> now w")
    case True
    then show ?thesis using b "1.prems"(2)
      by (subst (asm) waitUntil_check.simps) (auto split: if_splits bool.splits)
  next
    case False
    then have "fst (waitUntil_check c t i s False (tick i w)) = Rejected e"
      using b "1.prems"(2) by (subst (asm) waitUntil_check.simps) (auto split: bool.splits)
    then show ?thesis using b False "1.IH" [of False] "1.prems"(1) by auto
  qed
qed

lemma waitUntil_check_throw:
  assumes "\<forall>j<k. condition ((tick i ^^ j) w) = Inr False \<and> \<not> s + t \<le> now ((tick i ^^ j) w)"
    and "condition ((tick i ^^ k) w) = Inl e"
  shows "waitUntil_check condition t i s f w =
           (if k = 0 \<and> f then Rejected e else Pending, (tick i ^^ k) w)"
  using assms
proof (induction k arbitrary: w f)
  case 0
  then show ?case by (subst waitUntil_check.simps) simp
next
  case (Suc k)
  from Suc.prems(1) have here: "condition w = Inr False" "\<not> s + t \<le> now w"
    by (auto dest: spec [of _ 0])
  have later: "\<forall>j<k. condition ((tick i ^^ j) (tick i w)) = Inr False \<and>
                      \<not> s + t \<le> now ((tick i ^^ j) (tick i w))"
  proof (intro allI impI)
    fix j assume "j < k"
    then have "Suc j < Suc k" by simp
    with Suc.prems(1) have "condition ((tick i ^^ Suc j) w) = Inr False \<and>
                      \<not> s + t \<le> now ((tick i ^^ Suc j) w)"
      by blast
    then show "condition ((tick i ^^ j) (tick i w)) = Inr False \<and>
                      \<not> s + t \<le> now ((tick i ^^ j) (tick i w))"
      by (simp add: funpow_swap1)
  qed
  have thrown: "condition ((tick i ^^ k) (tick i w)) = Inl e"
    using Suc.prems(2) by (simp add: funpow_swap1)
  have "waitUntil_check condition t i s f w = waitUntil_check condition t i s False (tick i w)"
    using here by (subst waitUntil_check.simps) simp
  also have "\<dots> = (Pending, (tick i ^^ k) (tick i w))"
    using Suc.IH [OF later thrown, of False] by simp
  finally show ?case by (simp add: funpow_swap1)
qed

lemma waitUntil_true:
  "c w = Inr True \<Longrightarrow> waitUntil c t i w = (Fulfilled (), w)"
  by (simp add: waitUntil_def waitUntil_check.simps)

lemma waitUntil_check_fulfilled:
  "waitUntil_check c t i s f w = (Fulfilled u, w') \<Longrightarrow> c w' = Inr True"
proof (induction c t i s f w rule: waitUntil_check.induct)
  case (1 c t i s f w)
  show ?case
  proof (cases "c w")
    case (Inl e)
    then show ?thesis using "1.prems" by (subst (asm) waitUntil_check.simps) (simp split: if_splits)
  next
    case (Inr b)
    show ?thesis
    proof (cases "b \<or> s + t \<le> now w")
      case True
      then show ?thesis using Inr "1.prems"
        by (subst (asm) waitUntil_check.simps) (auto split: bool.splits if_splits)
    next
      case False
      then have "waitUntil_check c t i s False (tick i w) = (Fulfilled u, w')"
        using Inr "1.prems" by (subst (asm) waitUntil_check.simps) (auto split: bool.splits)
      then show ?thesis using "1.IH" [of False] Inr False by auto
    qed
  qed
qed

lemma waitUntil_fulfilled:
  "waitUntil c t i w = (Fulfilled u, w') \<Longrightarrow> c w' = Inr True"
  unfolding waitUntil_def by (rule waitUntil_check_fulfilled)

lemma waitUntil_settles:
  "(\<forall>w. \<exists>b. c w = Inr b) \<Longrightarrow> waitUntil c t i w \<noteq> (Pending, w')"
  using waitUntil_check_settles [of c t i "now w" True w] by (auto simp: waitUntil_def)

lemma waitUntil_rejects:
  "(\<forall>w. \<exists>b. c w = Inr b) \<Longrightarrow> waitUntil c t i w = (Rejected e, w') \<Longrightarrow>
   e = Error (''Timeout waiting for condition after '' @ show_nat t @ ''ms'')"
  using waitUntil_check_rejects [of c t i "now w" True w e] by (auto simp: waitUntil_def)

lemma sendButton_available_total: "\<exists>b. sendButton_available w = Inr b"
  by (simp add: sendButton_available_def visibleButtons_def)

lemma preview_closed_total: "\<exists>b. preview_closed w = Inr b"
  by (auto simp: preview_closed_def sel_previewModal_def split: option.splits)

subsection \<open>Evaluation on the sample pages\<close>

lemma show_3000: "show_nat 3000 = ''3000''"
  by (simp add: show_nat.simps digit_char_def)

lemma show_5000: "show_nat 5000 = ''5000''"
  by (simp add: show_nat.simps digit_char_def)

lemma show_preview: "show_nat maxWaitTime_preview = ''5000''"
  by (simp add: maxWaitTime_preview_def show_nat.simps digit_char_def)

lemma css_dropTarget: "css sel_dropTarget = ''.DropTarget''"
  by (simp add: sel_dropTarget_def)

lemma normalized_png: "normalized_type ''image/png'' = ''image/png''"
  by (simp add: normalized_type_def toLowerCase_def lower_char_def)

lemma includes_valid:
  "str_includes ''Not on a valid Telegram chat page. Please open a chat first.'' ''valid''"
  by simp

lemma classList_samples:
  "classList el_chat = [''chat-content'']"
  "classList el_composer = [''composer-wrapper'', ''shown'']"
  "classList el_modal = [''Modal'']"
  "classList el_secondary = [''Button'', ''secondary'']"
  "classList el_primary = [''Button'', ''primary'']"
  by (simp_all add: classList_def is_ascii_whitespace_def el_chat_def el_composer_def el_modal_def
        el_secondary_def el_primary_def)

lemma chat_doc_queries:
  "querySelector sel_dropTarget chat_doc = Inr None"
  "querySelector sel_previewModal chat_doc = Inr None"
  "querySelector sel_chatContent chat_doc = Inr (Some el_chat)"
  "querySelector sel_composerWrapper chat_doc = Inr (Some el_composer)"
  by (simp_all add: chat_doc_def sel_dropTarget_def sel_previewModal_def sel_chatContent_def
        sel_composerWrapper_def matches_def classList_samples)
     (simp_all add: el_chat_def el_composer_def)

lemma modal_doc_queries:
  "querySelector sel_previewModal modal_doc = Inr (Some el_modal)"
  by (simp add: modal_doc_def sel_previewModal_def matches_def classList_samples)
     (simp add: el_chat_def el_composer_def el_modal_def)

lemma target_doc_query: "querySelector sel_dropTarget target_doc = Inr (Some el_target)"
  by (simp add: target_doc_def sel_dropTarget_def matches_def classList_samples)
     (simp add: classList_def is_ascii_whitespace_def el_target_def)

lemma button_text_samples:
  "button_text el_secondary = ''send''" "button_text el_primary = ''send''"
  by (simp_all add: button_text_def toLowerCase_def trim_def is_js_space_def lower_char_def
        el_secondary_def el_primary_def)

lemma primary_samples:
  "\<not> str_includes (className el_secondary) ''primary''"
  "str_includes (className el_primary) ''primary''"
  by (simp_all add: el_secondary_def el_primary_def)

lemma modal_doc_buttons: "visibleButtons modal_doc = Inr [el_secondary, el_primary]"
  by (simp add: visibleButtons_def modal_doc_def matches_def)
     (simp add: el_chat_def el_composer_def el_modal_def el_secondary_def el_primary_def)

lemma modal_primary: "find is_primary_send [el_secondary, el_primary] = Some el_primary"
  by (simp add: is_primary_send_def Let_def button_text_samples primary_samples)

lemma id_primary: "node_id el_primary = 5"
  by (simp add: el_primary_def)

lemma nbsp_button_text: "button_text el_nbsp = ''send''"
  by (simp add: button_text_def toLowerCase_def trim_def is_js_space_def lower_char_def el_nbsp_def)

lemma nbsp_button_chosen: "find_sendButton [el_secondary, el_nbsp, el_primary] = Some el_nbsp"
  by (simp add: find_sendButton_def is_primary_send_def Let_def button_text_samples
        nbsp_button_text primary_samples)
     (simp add: el_nbsp_def)

lemma id_composer: "node_id el_composer = 2"
  by (simp add: el_composer_def)

lemma chat_world_fields:
  "now chat_world = 0" "doc chat_world = chat_doc" "script chat_world = chat_script"
  "page chat_world = idle_page" "href chat_world = ''https://web.telegram.org/a/''"
  "timers chat_world = []" "observers chat_world = []" "calls chat_world = []"
  by (simp_all add: chat_world_def chat_script_def)

lemma target_world_fields:
  "now target_world = 0" "doc target_world = chat_doc"
  "script target_world = [\<lparr>at = 10, records = [ChildList], result = target_doc\<rparr>]"
  "timers target_world = []" "observers target_world = []"
  by (simp_all add: target_world_def chat_world_def)

lemma now_chat_tick: "now (tick 100 chat_world) = 100"
  by (simp add: tick_def chat_world_def)

lemma wrong_host: "\<not> str_includes (href wrong_host_world) ''web.telegram.org''"
  by (simp add: wrong_host_world_def chat_world_def)

lemma upload_action: "action upload_request = JString ''uploadPhoto''"
  by (simp add: upload_request_def)

lemma chat_findDropZone: "doc w = chat_doc \<Longrightarrow> findDropZone w = Inr el_composer"
  by (simp add: findDropZone_def chat_doc_queries)

lemma chat_file: "uploadPhoto_file (Some png_job) 0 = Inr png_file"
  by (simp add: uploadPhoto_file_def png_job_def arrayBufferToFile_def or_default_def png_file_def
        normalized_type_def toLowerCase_def lower_char_def)

subsection \<open>The drag-and-drop sequence\<close>

lemma snd_await: 
  "snd (case p of (Fulfilled m, w7) \<Rightarrow> (Fulfilled True, w7) | (Rejected e, w7) \<Rightarrow> (Rejected e, w7)
        | (Pending, w7) \<Rightarrow> (Pending, w7)) = snd p"
  by (cases p; cases "fst p") auto

lemma calls_drop_on:
  "calls (snd (drop_on z dt w)) = calls w @ tl (drag_sequence t0 s0 (now w) (node_id z) dt)"
  by (simp add: drop_on_def Let_def snd_await waitForPreviewModal_def dragover_round_def
        dispatchEvent_def drag_sequence_def)

lemma drop_on_events:
  "drop_on z dt w =
     (case waitForPreviewModal (drop_events z dt w) of
        (Fulfilled modal, w7) \<Rightarrow> (Fulfilled True, w7)
      | (Rejected e, w7) \<Rightarrow> (Rejected e, w7)
      | (Pending, w7) \<Rightarrow> (Pending, w7))"
  by (simp add: drop_on_def drop_events_def Let_def)

lemma calls_drop_events:
  "calls (drop_events z dt w) = calls w @ tl (drag_sequence t0 s0 (now w) (node_id z) dt)"
  by (simp add: drop_events_def Let_def dragover_round_def dispatchEvent_def drag_sequence_def)

lemma calls_uploadViaDragAndDrop:
  assumes "findDropZone w = Inr surface"
    and "waitForElement sel_dropTarget maxWaitTime_dropTarget
           (dispatchEvent surface (DragEvent ''dragenter'' (createDataTransfer f)) w) = (r, w2)"
  shows "calls (snd (uploadViaDragAndDrop f w)) =
           calls w @ drag_sequence (now w) (node_id surface) (now w2)
                      (node_id (case r of Fulfilled dropTarget \<Rightarrow> dropTarget | _ \<Rightarrow> surface))
                      (createDataTransfer f)"
proof -
  have "calls (snd (r, w2)) =
          calls (dispatchEvent surface (DragEvent ''dragenter'' (createDataTransfer f)) w)"
    unfolding assms(2) [symmetric] by (rule calls_waitForElement)
  then have c2: "calls w2 = calls w @ [(now w, DispatchEvent (node_id surface)
                                          (DragEvent ''dragenter'' (createDataTransfer f)))]"
    by (simp add: dispatchEvent_def)
  have "fst (r, w2) \<noteq> Pending"
    unfolding assms(2) [symmetric] by (rule waitForElement_settles)
  then have np: "r \<noteq> Pending" by simp
  show ?thesis
    using np
    by (cases r)
       (simp_all add: uploadViaDragAndDrop_def assms Let_def
          calls_drop_on [where ?t0.0 = "now w" and ?s0.0 = "node_id surface"] c2 drag_sequence_def)
qed

subsection \<open>Outcomes of the stages\<close>

lemma clickSendButton_outcome:
  "\<exists>w'. clickSendButton w = (Fulfilled (), w') \<or>
        clickSendButton w = (Rejected (Error ''Failed to click send: Timeout waiting for condition after 5000ms''), w') \<or>
        clickSendButton w = (Rejected (Error ''Failed to click send: Send button not found despite passing waitUntil check''), w')"
proof -
  obtain r1 w1 where r1: "waitUntil sendButton_available maxWaitTime_sendButton 100 w = (r1, w1)"
    by (cases "waitUntil sendButton_available maxWaitTime_sendButton 100 w")
  have p1: "r1 \<noteq> Pending"
    using waitUntil_settles [of sendButton_available] sendButton_available_total r1 by blast
  show ?thesis
  proof (cases r1)
    case Pending
    then show ?thesis using p1 by simp
  next
    case (Rejected e)
    then have "e = Error (''Timeout waiting for condition after '' @ show_nat maxWaitTime_sendButton @ ''ms'')"
      using waitUntil_rejects [of sendButton_available] sendButton_available_total r1 by blast
    then show ?thesis using r1 Rejected
      by (simp add: clickSendButton_def failed_to_click_def maxWaitTime_sendButton_def show_5000)
  next
    case (Fulfilled u)
    obtain vs where vs: "visibleButtons (doc w1) = Inr vs"
      by (simp add: visibleButtons_def)
    show ?thesis
    proof (cases "find_sendButton vs")
      case None
      then show ?thesis using r1 Fulfilled vs
        by (simp add: clickSendButton_def failed_to_click_def)
    next
      case (Some b)
      obtain r2 w3 where r2: "waitUntil preview_closed maxWaitTime_clickResponse 100 (performClick b w1) = (r2, w3)"
        by (cases "waitUntil preview_closed maxWaitTime_clickResponse 100 (performClick b w1)")
      have "r2 \<noteq> Pending"
        using waitUntil_settles [of preview_closed] preview_closed_total r2 by blast
      then show ?thesis using r1 Fulfilled vs Some r2
        by (cases r2) (simp_all add: clickSendButton_def Let_def)
    qed
  qed
qed

lemma drop_on_outcome:
  "\<exists>w'. drop_on z dt w = (Fulfilled True, w') \<or> drop_on z dt w = (Rejected preview_timeout, w')"
proof -
  let ?w6 = "dispatchEvent z (DragEvent ''dragleave'' dt)
      (dispatchEvent z (DragEvent ''drop'' dt)
        (addEventListener z ''drop'' (fold (dragover_round z dt) [0, 1, 2] w)))"
  obtain r w7 where r: "waitForPreviewModal ?w6 = (r, w7)"
    by (cases "waitForPreviewModal ?w6")
  have "r \<noteq> Pending" using r waitForElement_no_Pending by (auto simp: waitForPreviewModal_def)
  moreover have "r = Rejected e \<Longrightarrow> e = preview_timeout" for e
    using r waitForElement_rejects [of "[ClassSel ''modal'', AttrSel ''role'' ''dialog'']" maxWaitTime_preview ?w6 e w7]
    by (simp add: waitForPreviewModal_def sel_previewModal_def [symmetric] show_preview preview_timeout_def)
  ultimately show ?thesis using r
    by (cases r) (simp_all add: drop_on_def Let_def)
qed

lemma findDropZone_outcome:
  "(\<exists>el. findDropZone w = Inr el) \<or>
   findDropZone w = Inl (Error ''No drop zone found. Make sure you have a chat open.'')"
  by (simp add: findDropZone_def sel_composerWrapper_def sel_messageContainer_def
        sel_middleColumn_def sel_messageInput_def split: option.splits)

lemma uploadViaDragAndDrop_outcome:
  "\<exists>w'. uploadViaDragAndDrop f w = (Fulfilled True, w') \<or>
        uploadViaDragAndDrop f w = (Rejected preview_timeout, w') \<or>
        uploadViaDragAndDrop f w =
          (Rejected (Error ''No drop zone found. Make sure you have a chat open.''), w')"
proof -
  consider el where "findDropZone w = Inr el"
    | "findDropZone w = Inl (Error ''No drop zone found. Make sure you have a chat open.'')"
    using findDropZone_outcome by blast
  then show ?thesis
  proof cases
    case 1
    let ?w1 = "dispatchEvent el (DragEvent ''dragenter'' (createDataTransfer f)) w"
    obtain r w2 where r: "waitForElement sel_dropTarget maxWaitTime_dropTarget ?w1 = (r, w2)"
      by (cases "waitForElement sel_dropTarget maxWaitTime_dropTarget ?w1")
    have "r \<noteq> Pending" using r waitForElement_no_Pending by auto
    then show ?thesis
    proof (cases r)
      case (Fulfilled t)
      then show ?thesis using 1 r drop_on_outcome [of t "createDataTransfer f" w2]
        by (auto simp: uploadViaDragAndDrop_def Let_def)
    next
      case (Rejected e)
      then show ?thesis using 1 r drop_on_outcome [of el "createDataTransfer f" w2]
        by (auto simp: uploadViaDragAndDrop_def Let_def)
    qed simp
  next
    case 2
    then show ?thesis by (auto simp: uploadViaDragAndDrop_def)
  qed
qed

lemma uploadPhoto_file_outcome:
  "(\<exists>f. uploadPhoto_file job t = Inr f) \<or>
   uploadPhoto_file job t = Inl (Error ''Invalid data: arrayBuffer is required'')"
  by (simp add: uploadPhoto_file_def arrayBufferToFile_def split: option.splits)

lemma uploadPhoto_try_outcome:
  "\<exists>w'. uploadPhoto_try job w = (Fulfilled (), w') \<or>
        (\<exists>m \<in> set failure_messages. uploadPhoto_try job w = (Rejected (Error m), w'))"
proof -
  consider f where "uploadPhoto_file job (now w) = Inr f"
    | "uploadPhoto_file job (now w) = Inl (Error ''Invalid data: arrayBuffer is required'')"
    using uploadPhoto_file_outcome by blast
  then show ?thesis
  proof cases
    case 1
    obtain w1 where "uploadViaDragAndDrop f w = (Fulfilled True, w1) \<or>
        uploadViaDragAndDrop f w = (Rejected preview_timeout, w1) \<or>
        uploadViaDragAndDrop f w =
          (Rejected (Error ''No drop zone found. Make sure you have a chat open.''), w1)"
      using uploadViaDragAndDrop_outcome by blast
    then show ?thesis
    proof (elim disjE)
      assume a: "uploadViaDragAndDrop f w = (Fulfilled True, w1)"
      obtain w' where "clickSendButton w1 = (Fulfilled (), w') \<or>
        clickSendButton w1 = (Rejected (Error ''Failed to click send: Timeout waiting for condition after 5000ms''), w') \<or>
        clickSendButton w1 = (Rejected (Error ''Failed to click send: Send button not found despite passing waitUntil check''), w')"
        using clickSendButton_outcome by blast
      then show ?thesis using 1 a
        by (auto simp: uploadPhoto_try_def failure_messages_def)
    next
      assume "uploadViaDragAndDrop f w = (Rejected preview_timeout, w1)"
      then show ?thesis using 1
        by (auto simp: uploadPhoto_try_def failure_messages_def preview_timeout_def)
    next
      assume "uploadViaDragAndDrop f w =
          (Rejected (Error ''No drop zone found. Make sure you have a chat open.''), w1)"
      then show ?thesis using 1
        by (auto simp: uploadPhoto_try_def failure_messages_def)
    qed
  next
    case 2
    then show ?thesis by (auto simp: uploadPhoto_try_def failure_messages_def)
  qed
qed

lemma modal_sendButton_available: "doc w = modal_doc \<Longrightarrow> sendButton_available w = Inr True"
  by (simp add: sendButton_available_def modal_doc_buttons is_primary_send_def Let_def
        button_text_samples primary_samples)

lemma click_after_wait:
  assumes "waitUntil sendButton_available maxWaitTime_sendButton 100 w = (Fulfilled u, w8)"
  shows "\<exists>vs b w9. visibleButtons (doc w8) = Inr vs \<and> find is_primary_send vs = Some b \<and>
           clickSendButton w = (Fulfilled (), w9) \<and>
           calls w9 = calls w @ click_calls (now w8) (node_id b)"
proof -
  have "sendButton_available w8 = Inr True"
    using assms by (rule waitUntil_fulfilled)
  then obtain vs b where vs: "visibleButtons (doc w8) = Inr vs" "find is_primary_send vs = Some b"
    by (auto simp: sendButton_available_def split: sum.splits)
  then have f: "find_sendButton vs = Some b" by (simp add: find_sendButton_def)
  let ?p = "waitUntil preview_closed maxWaitTime_clickResponse 100 (performClick b w8)"
  obtain r2 w9 where r2: "?p = (r2, w9)" by (cases ?p)
  have "r2 \<noteq> Pending"
    using waitUntil_settles [of preview_closed] preview_closed_total r2 by blast
  then have c: "clickSendButton w = (Fulfilled (), w9)"
    using assms vs f r2 by (cases r2) (simp_all add: clickSendButton_def Let_def)
  have "calls (snd (r2, w9)) = calls (performClick b w8)"
    unfolding r2 [symmetric] by (rule calls_waitUntil)
  then have "calls w9 = calls w8 @ click_calls (now w8) (node_id b)"
    by (simp add: performClick_def Let_def focus_def dispatchEvent_def click_calls_def)
  moreover have "calls (snd (Fulfilled u, w8)) = calls w"
    unfolding assms [symmetric] by (rule calls_waitUntil)
  then have "calls w8 = calls w" by simp
  ultimately show ?thesis using vs c by auto
qed

lemma click_wait_rejected:
  assumes "waitUntil sendButton_available maxWaitTime_sendButton 100 w = (Rejected e, w8)"
  shows "clickSendButton w =
           (Rejected (Error ''Failed to click send: Timeout waiting for condition after 5000ms''), w8)"
proof -
  have "e = Error (''Timeout waiting for condition after '' @ show_nat maxWaitTime_sendButton @ ''ms'')"
    using waitUntil_rejects [of sendButton_available] sendButton_available_total assms by blast
  then show ?thesis using assms
    by (simp add: clickSendButton_def failed_to_click_def maxWaitTime_sendButton_def show_5000)
qed

subsection \<open>A run on the sample chat\<close>

lemma stage_refine:
  assumes "now w = 0" "doc w = chat_doc" "script w = chat_script" "page w = idle_page"
  shows "\<exists>w2. waitForElement sel_dropTarget maxWaitTime_dropTarget w =
           (Rejected (Error ''Element not found: .DropTarget (timeout after 3000ms)''), w2) \<and>
         now w2 = 3000 \<and> doc w2 = chat_doc \<and> script w2 = chat_script \<and> page w2 = idle_page"
  using assms
  by (simp add: waitForElement_def chat_doc_queries Let_def setTimeout_def observe_def
        chat_script_def timer_fires_def fire_due_def maxWaitTime_dropTarget_def
        show_3000 css_dropTarget)

lemma stage_preview:
  assumes "now w = 3000" "doc w = chat_doc" "script w = chat_script" "page w = idle_page"
  shows "\<exists>w7. waitForPreviewModal (drop_events z dt w) = (Fulfilled el_modal, w7) \<and>
              now w7 = 3200 \<and> doc w7 = modal_doc"
  using assms
  by (simp add: drop_events_def Let_def dragover_round_def sleep_def pass_time_def fire_due_def
        dispatchEvent_def perform_def addEventListener_def idle_page_def chat_script_def
        waitForPreviewModal_def waitForElement_def chat_doc_queries setTimeout_def observe_def
        maxWaitTime_preview_def deliver_def found_element_def modal_doc_queries disconnect_def)

lemma chat_refined_timeout:
  "fst (waitForElement sel_dropTarget maxWaitTime_dropTarget
          (dispatchEvent el_composer (DragEvent ''dragenter'' (createDataTransfer png_file))
             chat_world)) =
     Rejected (Error ''Element not found: .DropTarget (timeout after 3000ms)'')"
proof -
  let ?w1 = "dispatchEvent el_composer (DragEvent ''dragenter'' (createDataTransfer png_file)) chat_world"
  have w1: "now ?w1 = 0" "doc ?w1 = chat_doc" "script ?w1 = chat_script" "page ?w1 = idle_page"
    by (simp_all add: dispatchEvent_def perform_def Let_def chat_world_fields idle_page_def)
  show ?thesis using stage_refine [OF w1] by auto
qed

lemma target_wait:
  "fst (waitForElement sel_dropTarget 3000 target_world) = Fulfilled el_target \<and>
   timers (snd (waitForElement sel_dropTarget 3000 target_world)) = [(3000, 0)] \<and>
   observers (snd (waitForElement sel_dropTarget 3000 target_world)) = [Observe 0, Disconnect 0] \<and>
   now (snd (waitForElement sel_dropTarget 3000 target_world)) = 10"
  by (simp add: waitForElement_def target_world_fields chat_doc_queries Let_def next_observer_def
        observe_def setTimeout_def deliver_def fire_due_def found_element_def target_doc_query
        disconnect_def)

subsection \<open>Bookkeeping of observers and timers\<close>

lemma subscriptions_fire_due [simp]: "subscriptions ob (fire_due t w) = subscriptions ob w"
  by (simp add: subscriptions_def fire_due_def filter_map o_def)

lemma releases_fire_due:
  "releases ob (fire_due t w) = releases ob w + length (filter (\<lambda>p. fst p \<le> t) (scheduled ob w))"
proof -
  have "length (filter (\<lambda>c. c = Disconnect ob) (map (\<lambda>p. Disconnect (snd p)) xs)) =
        length (filter (\<lambda>p. fst p \<le> t) (filter (\<lambda>p. snd p = ob) ys))"
    if "xs = filter (\<lambda>p. fst p \<le> t) ys" for xs ys :: "(nat \<times> nat) list"
    unfolding that by (induction ys) auto
  then show ?thesis by (simp add: releases_def fire_due_def scheduled_def)
qed

lemma scheduled_fire_due:
  "scheduled ob (fire_due t w) = filter (\<lambda>p. t < fst p) (scheduled ob w)"
  by (induction "timers w") (auto simp: scheduled_def fire_due_def conj_commute)

lemma subscriptions_timer_fires [simp]: "subscriptions ob (timer_fires d w) = subscriptions ob w"
  by (simp add: timer_fires_def) (simp add: subscriptions_def)

lemma releases_timer_fires:
  "releases ob (timer_fires d w) =
     releases ob w + length (filter (\<lambda>p. fst p \<le> max (now w) d) (scheduled ob w))"
  by (simp add: timer_fires_def releases_fire_due) (simp add: releases_def scheduled_def)

lemma scheduled_timer_fires:
  "scheduled ob (timer_fires d w) = filter (\<lambda>p. max (now w) d < fst p) (scheduled ob w)"
  by (simp add: timer_fires_def scheduled_fire_due) (simp add: scheduled_def)

lemma subscriptions_deliver [simp]: "subscriptions ob (deliver c cs w) = subscriptions ob w"
  by (simp add: deliver_def) (simp add: subscriptions_def)

lemma releases_deliver:
  "releases ob (deliver c cs w) =
     releases ob w + length (filter (\<lambda>p. fst p \<le> max (now w) (at c)) (scheduled ob w))"
  by (simp add: deliver_def releases_fire_due) (simp add: releases_def scheduled_def)

lemma scheduled_deliver:
  "scheduled ob (deliver c cs w) = filter (\<lambda>p. max (now w) (at c) < fst p) (scheduled ob w)"
  by (simp add: deliver_def scheduled_fire_due) (simp add: scheduled_def)

lemma disconnect_bookkeeping [simp]:
  "subscriptions ob (disconnect ob w) = subscriptions ob w"
  "releases ob (disconnect ob w) = releases ob w + 1"
  "scheduled ob (disconnect ob w) = scheduled ob w"
  "now (disconnect ob w) = now w"
  by (simp_all add: disconnect_def subscriptions_def releases_def scheduled_def)

lemma observe_until_bookkeeping:
  assumes "scheduled ob w = [(deadline, ob)]"
    and "observe_until ob notified found err deadline cs w = (r, w')"
  shows "subscriptions ob w' = subscriptions ob w \<and> releases ob w' = releases ob w + 1 \<and>
         (case r of
            Fulfilled x \<Rightarrow> scheduled ob w' = [(deadline, ob)] \<and>
                           releases ob (timer_fires deadline w') = releases ob w + 2 \<and>
                           scheduled ob (timer_fires deadline w') = []
          | Rejected e \<Rightarrow> scheduled ob w' = []
          | Pending \<Rightarrow> False)"
  using assms
proof (induction cs arbitrary: w)
  case Nil
  then show ?case
    by (auto simp: releases_timer_fires scheduled_timer_fires)
next
  case (Cons c cs)
  show ?case
  proof (cases "max (now w) (at c) < deadline")
    case False
    then show ?thesis using Cons.prems
      by (auto simp: releases_timer_fires scheduled_timer_fires)
  next
    case True
    let ?w1 = "deliver c cs w"
    have s1: "scheduled ob ?w1 = [(deadline, ob)]"
      using True Cons.prems(1) by (simp add: scheduled_deliver)
    have r1: "releases ob ?w1 = releases ob w"
      using True Cons.prems(1) by (simp add: releases_deliver not_le [symmetric])
    have u1: "subscriptions ob ?w1 = subscriptions ob w"
      by simp
    show ?thesis
    proof (cases "notified (records c) \<and> found ?w1 \<noteq> None")
      case False
      then have "observe_until ob notified found err deadline cs ?w1 = (r, w')"
        using Cons.prems(2) True by (auto simp: Let_def split: if_splits)
      from Cons.IH [OF s1 this] show ?thesis by (cases r) (simp_all add: r1 u1)
    next
      case found: True
      then obtain x where x: "found ?w1 = Some x" by auto
      then have "r = Fulfilled x" "w' = disconnect ob ?w1"
        using Cons.prems(2) True found by (auto simp: Let_def)
      then show ?thesis using s1 r1 u1 True
        by (simp add: releases_timer_fires scheduled_timer_fires max_def)
    qed
  qed
qed

lemma fresh_subscription:
  assumes "unused ob w"
  shows "scheduled ob (setTimeout timeout ob (observe ob w)) = [(now w + timeout, ob)]"
    and "subscriptions ob (setTimeout timeout ob (observe ob w)) = 1"
    and "releases ob (setTimeout timeout ob (observe ob w)) = 0"
  using assms
  by (simp_all add: unused_def setTimeout_def observe_def scheduled_def subscriptions_def releases_def)

lemma subscribe_bookkeeping:
  assumes "unused ob w"
    and "observe_until ob notified found err (now w + timeout) cs
           (setTimeout timeout ob (observe ob w)) = (r, w')"
  shows "subscriptions ob w' = 1 \<and> releases ob w' = 1 \<and>
          (case r of
             Fulfilled x \<Rightarrow>
               scheduled ob w' = [(now w + timeout, ob)] \<and>
               releases ob (timer_fires (now w + timeout) w') = 2 \<and>
               scheduled ob (timer_fires (now w + timeout) w') = []
           | Rejected e \<Rightarrow> scheduled ob w' = []
           | Pending \<Rightarrow> False)"
  using observe_until_bookkeeping [OF fresh_subscription(1) [OF assms(1), of timeout] assms(2)]
    fresh_subscription(2,3) [OF assms(1), of timeout]
  by (cases r) simp_all

lemma target_unused: "unused (next_observer target_world) target_world"
  by (simp add: unused_def next_observer_def subscriptions_def releases_def scheduled_def
        target_world_fields)

subsection \<open>Choice of the send button\<close>

lemma find_append: "find P (xs @ ys) = (case find P xs of None \<Rightarrow> find P ys | Some x \<Rightarrow> Some x)"
  by (induction xs) auto

lemma find_none: "(\<forall>x\<in>set xs. \<not> P x) \<Longrightarrow> find P xs = None"
  by (induction xs) auto

lemma primary_first:
  assumes "vs = pre @ secondary # mid @ primary # post"
    and "\<not> str_includes (className secondary) ''primary''"
    and "is_send primary" and "str_includes (className primary) ''primary''"
    and "\<forall>b\<in>set (pre @ mid). \<not> is_primary_send b"
  shows "find is_primary_send vs = Some primary"
proof -
  have "\<not> is_primary_send secondary" using assms(2) by (simp add: is_primary_send_def)
  moreover have "is_primary_send primary" using assms(3,4) by (simp add: is_primary_send_def is_send_def)
  moreover have "find is_primary_send pre = None" "find is_primary_send mid = None"
    using assms(5) by (auto intro: find_none)
  ultimately show ?thesis by (simp add: assms(1) find_append)
qed

lemma snd_click_await:
  "snd (case p of (Pending, w3) \<Rightarrow> (Pending, w3) | (Fulfilled u', w3) \<Rightarrow> (Fulfilled (), w3)
        | (Rejected e, w3) \<Rightarrow> (Fulfilled (), w3)) = snd p"
  by (cases p; cases "fst p") auto

section \<open>The claims\<close>

subsection \<open>The message listener on an invalid page\<close>

text \<open>
  C1, as amended. When the host location does not contain \<^verbatim>\<open>web.telegram.org\<close> or the
  document has no chat-content element, an upload request is answered at once with
  \<^verbatim>\<open>success: false\<close> and an error message that contains \<^verbatim>\<open>valid\<close>. The response has no
  \<^verbatim>\<open>message\<close> and no \<^verbatim>\<open>duration\<close> field: the listener answers before \<^verbatim>\<open>uploadPhoto\<close>,
  which measures the duration, is called. The world is left as it was, so nothing is
  dispatched.
\<close>

theorem invalid_page_response:
  assumes "action request = JString ''uploadPhoto''"
    and "\<not> str_includes (href w) ''web.telegram.org'' \<or> querySelector sel_chatContent (doc w) = Inr None"
  shows "\<exists>msg. onMessage request w =
             (Some \<lparr>success = False, error = Some msg, message = None, duration = None\<rparr>, w) \<and>
           str_includes msg ''valid''"
  using assms includes_valid by (auto simp: onMessage_def isValidTelegramPage_def)

text \<open>The amended C1 on a chat under the wrong host.\<close>

theorem invalid_page_response_witness:
  "action upload_request = JString ''uploadPhoto'' \<and>
   \<not> str_includes (href wrong_host_world) ''web.telegram.org'' \<and>
   (\<exists>msg. onMessage upload_request wrong_host_world =
             (Some \<lparr>success = False, error = Some msg, message = None, duration = None\<rparr>,
              wrong_host_world) \<and>
           str_includes msg ''valid'')"
proof -
  have h: "\<not> str_includes (href wrong_host_world) ''web.telegram.org'' \<or>
           querySelector sel_chatContent (doc wrong_host_world) = Inr None"
    using wrong_host by simp
  show ?thesis
    using upload_action wrong_host invalid_page_response [OF upload_action h] by blast
qed

text \<open>
  C1 as stated fails: the response to an upload request under the wrong host has no
  duration field.
\<close>

theorem invalid_page_duration_counterexample:
  "action upload_request = JString ''uploadPhoto'' \<and>
   \<not> str_includes (href wrong_host_world) ''web.telegram.org'' \<and>
   onMessage upload_request wrong_host_world =
     (Some \<lparr>success = False,
             error = Some ''Not on a valid Telegram chat page. Please open a chat first.'',
             message = None, duration = None\<rparr>, wrong_host_world)"
  using wrong_host upload_action by (simp add: onMessage_def isValidTelegramPage_def)

subsection \<open>A predicate of \<^verbatim>\<open>waitUntil\<close> that throws\<close>

text \<open>
  C2, as amended. If the predicate throws on the immediate first check, the promise of
  \<^verbatim>\<open>waitUntil\<close> is rejected with that error, at once and with the world untouched. If it
  throws for the first time on the \<open>k\<close>-th later tick, while before that it returned false
  and the timeout had not passed, polling stops with that tick, but the promise is not
  rejected: it is never settled.
\<close>

theorem waitUntil_predicate_throws:
  "(condition w = Inl e \<longrightarrow> waitUntil condition timeout checkInterval w = (Rejected e, w)) \<and>
   (0 < k \<and>
    (\<forall>j<k. condition ((tick checkInterval ^^ j) w) = Inr False \<and>
            now ((tick checkInterval ^^ j) w) < now w + timeout) \<and>
    condition ((tick checkInterval ^^ k) w) = Inl e \<longrightarrow>
      waitUntil condition timeout checkInterval w = (Pending, (tick checkInterval ^^ k) w))"
proof (intro conjI impI)
  assume "condition w = Inl e"
  then show "waitUntil condition timeout checkInterval w = (Rejected e, w)"
    using waitUntil_check_throw [of 0 condition checkInterval w "now w" timeout e True]
    by (simp add: waitUntil_def)
next
  assume a: "0 < k \<and>
    (\<forall>j<k. condition ((tick checkInterval ^^ j) w) = Inr False \<and>
            now ((tick checkInterval ^^ j) w) < now w + timeout) \<and>
    condition ((tick checkInterval ^^ k) w) = Inl e"
  then have "\<forall>j<k. condition ((tick checkInterval ^^ j) w) = Inr False \<and>
                   \<not> now w + timeout \<le> now ((tick checkInterval ^^ j) w)"
    by (simp add: not_le)
  then show "waitUntil condition timeout checkInterval w = (Pending, (tick checkInterval ^^ k) w)"
    using a waitUntil_check_throw [of k condition checkInterval w "now w" timeout e True]
    by (simp add: waitUntil_def)
qed

text \<open>The amended C2 on a predicate that always throws and on one that throws at the first tick.\<close>

theorem waitUntil_predicate_throws_witness:
  "always_throws chat_world = Inl (Error ''boom'') \<and>
   waitUntil always_throws 5000 100 chat_world = (Rejected (Error ''boom''), chat_world) \<and>
   throws_later chat_world = Inr False \<and>
   now chat_world < now chat_world + 5000 \<and>
   throws_later (tick 100 chat_world) = Inl (Error ''boom'') \<and>
   waitUntil throws_later 5000 100 chat_world = (Pending, tick 100 chat_world)"
proof -
  have a: "always_throws chat_world = Inl (Error ''boom'')"
    by (simp add: always_throws_def)
  have b: "throws_later chat_world = Inr False" "now chat_world < now chat_world + 5000"
    by (simp_all add: throws_later_def chat_world_def)
  have c: "throws_later (tick 100 chat_world) = Inl (Error ''boom'')"
    by (simp add: throws_later_def now_chat_tick)
  show ?thesis
    using a b c
      waitUntil_predicate_throws [of always_throws chat_world "Error ''boom''" 5000 100 0]
      waitUntil_predicate_throws [of throws_later chat_world "Error ''boom''" 5000 100 1]
    by simp
qed

text \<open>
  C2 as stated fails: a predicate that is false at the first check and throws at the
  second leaves the promise pending instead of rejecting it.
\<close>

theorem waitUntil_later_throw_counterexample:
  "throws_later chat_world = Inr False \<and>
   throws_later (tick 100 chat_world) = Inl (Error ''boom'') \<and>
   waitUntil throws_later 5000 100 chat_world = (Pending, tick 100 chat_world)"
proof -
  have 0: "throws_later chat_world = Inr False"
    by (simp add: throws_later_def chat_world_def)
  have 1: "throws_later (tick 100 chat_world) = Inl (Error ''boom'')"
    by (simp add: throws_later_def now_chat_tick)
  have "\<forall>j<Suc 0. throws_later ((tick 100 ^^ j) chat_world) = Inr False \<and>
          \<not> now chat_world + 5000 \<le> now ((tick 100 ^^ j) chat_world)"
    using 0 by (simp add: chat_world_def)
  moreover have "throws_later ((tick 100 ^^ Suc 0) chat_world) = Inl (Error ''boom'')"
    using 1 by simp
  ultimately have "waitUntil_check throws_later 5000 100 (now chat_world) True chat_world =
      (if Suc 0 = 0 \<and> True then Rejected (Error ''boom'') else Pending, (tick 100 ^^ Suc 0) chat_world)"
    by (rule waitUntil_check_throw)
  then show ?thesis using 0 1 by (simp add: waitUntil_def)
qed

subsection \<open>Release of the observer and the safety timer\<close>

text \<open>
  C3, as amended. \<^verbatim>\<open>waitForElement\<close> and \<^verbatim>\<open>waitForClass\<close>, called when the number of the
  next observer is unused: if the first check settles the call (the element exists, the
  class is present, or the selector makes the query throw), nothing is subscribed and no
  timer is set. Otherwise the observer is subscribed once and, when the promise is
  settled, was released once. After a rejection none of its timers is left. After a
  success its safety timer is still scheduled, nothing having cancelled it, and when that
  timer fires the observer is released a second time.
\<close>

theorem observer_release_and_timer:
  assumes "unused (next_observer w) w"
  shows
    "(case waitForElement selector timeout w of (r, w') \<Rightarrow>
        if querySelector selector (doc w) = Inr None then
          subscriptions (next_observer w) w' = 1 \<and> releases (next_observer w) w' = 1 \<and>
          (case r of
             Fulfilled x \<Rightarrow>
               scheduled (next_observer w) w' = [(now w + timeout, next_observer w)] \<and>
               releases (next_observer w) (timer_fires (now w + timeout) w') = 2 \<and>
               scheduled (next_observer w) (timer_fires (now w + timeout) w') = []
           | Rejected e \<Rightarrow> scheduled (next_observer w) w' = []
           | Pending \<Rightarrow> False)
        else r \<noteq> Pending \<and> w' = w) \<and>
     (case waitForClass el cls timeout w of (r, w') \<Rightarrow>
        if \<not> classList_contains el cls w then
          subscriptions (next_observer w) w' = 1 \<and> releases (next_observer w) w' = 1 \<and>
          (case r of
             Fulfilled x \<Rightarrow>
               scheduled (next_observer w) w' = [(now w + timeout, next_observer w)] \<and>
               releases (next_observer w) (timer_fires (now w + timeout) w') = 2 \<and>
               scheduled (next_observer w) (timer_fires (now w + timeout) w') = []
           | Rejected e \<Rightarrow> scheduled (next_observer w) w' = []
           | Pending \<Rightarrow> False)
        else r = Fulfilled () \<and> w' = w)"
proof -
  let ?ob = "next_observer w"
  let ?w2 = "setTimeout timeout ?ob (observe ?ob w)"
  have 1: "(case waitForElement selector timeout w of (r, w') \<Rightarrow>
        if querySelector selector (doc w) = Inr None then
          subscriptions ?ob w' = 1 \<and> releases ?ob w' = 1 \<and>
          (case r of
             Fulfilled x \<Rightarrow>
               scheduled ?ob w' = [(now w + timeout, ?ob)] \<and>
               releases ?ob (timer_fires (now w + timeout) w') = 2 \<and>
               scheduled ?ob (timer_fires (now w + timeout) w') = []
           | Rejected e \<Rightarrow> scheduled ?ob w' = []
           | Pending \<Rightarrow> False)
        else r \<noteq> Pending \<and> w' = w)"
  proof (cases "querySelector selector (doc w) = Inr None")
    case True
    let ?err = "Error (''Element not found: '' @ css selector @ '' (timeout after ''
                          @ show_nat timeout @ ''ms)'')"
    obtain r w' where eq: "observe_until ?ob (list_ex body_observer_notified)
        (found_element selector) ?err (now w + timeout) (script ?w2) ?w2 = (r, w')"
      by (cases "observe_until ?ob (list_ex body_observer_notified)
        (found_element selector) ?err (now w + timeout) (script ?w2) ?w2")
    have "waitForElement selector timeout w = (r, w')"
      using True eq by (simp add: waitForElement_def Let_def)
    then show ?thesis using subscribe_bookkeeping [OF assms eq] True by simp
  next
    case False
    then show ?thesis
      by (auto simp: waitForElement_def split: sum.splits option.splits)
  qed
  have 2: "(case waitForClass el cls timeout w of (r, w') \<Rightarrow>
        if \<not> classList_contains el cls w then
          subscriptions ?ob w' = 1 \<and> releases ?ob w' = 1 \<and>
          (case r of
             Fulfilled x \<Rightarrow>
               scheduled ?ob w' = [(now w + timeout, ?ob)] \<and>
               releases ?ob (timer_fires (now w + timeout) w') = 2 \<and>
               scheduled ?ob (timer_fires (now w + timeout) w') = []
           | Rejected e \<Rightarrow> scheduled ?ob w' = []
           | Pending \<Rightarrow> False)
        else r = Fulfilled () \<and> w' = w)"
  proof (cases "classList_contains el cls w")
    case False
    let ?err = "Error (''Class '' @ [CHR 0x22] @ cls @ [CHR 0x22] @ '' did not appear within ''
                        @ show_nat timeout @ ''ms'')"
    obtain r w' where eq: "observe_until ?ob (\<lambda>ms. Attributes (node_id el) ''class'' \<in> set ms)
        (\<lambda>w'. if classList_contains el cls w' then Some () else None) ?err
        (now w + timeout) (script ?w2) ?w2 = (r, w')"
      by (cases "observe_until ?ob (\<lambda>ms. Attributes (node_id el) ''class'' \<in> set ms)
        (\<lambda>w'. if classList_contains el cls w' then Some () else None) ?err
        (now w + timeout) (script ?w2) ?w2")
    have "waitForClass el cls timeout w = (r, w')"
      using False eq by (simp add: waitForClass_def Let_def)
    then show ?thesis using subscribe_bookkeeping [OF assms eq] False by simp
  next
    case True
    then show ?thesis
      by (auto simp: waitForClass_def)
  qed
  show ?thesis using 1 2 by blast
qed

text \<open>The amended C3 on the world in which the drop target appears at time 10.\<close>

theorem observer_release_and_timer_witness:
  "unused (next_observer target_world) target_world \<and>
   subscriptions 0 (snd (waitForElement sel_dropTarget 3000 target_world)) = 1 \<and>
   releases 0 (snd (waitForElement sel_dropTarget 3000 target_world)) = 1 \<and>
   scheduled 0 (snd (waitForElement sel_dropTarget 3000 target_world)) = [(3000, 0)] \<and>
   releases 0 (timer_fires 3000 (snd (waitForElement sel_dropTarget 3000 target_world))) = 2 \<and>
   scheduled 0 (timer_fires 3000 (snd (waitForElement sel_dropTarget 3000 target_world))) = []"
proof -
  obtain r w' where eq: "waitForElement sel_dropTarget 3000 target_world = (r, w')"
    by (cases "waitForElement sel_dropTarget 3000 target_world")
  have r: "r = Fulfilled el_target" using target_wait eq by simp
  have q: "querySelector sel_dropTarget (doc target_world) = Inr None"
    by (simp add: target_world_fields chat_doc_queries)
  have n: "next_observer target_world = 0" "now target_world = 0"
    by (simp_all add: next_observer_def target_world_fields)
  show ?thesis
    using target_unused
      conjunct1 [OF observer_release_and_timer [OF target_unused, of sel_dropTarget 3000]]
    by (simp add: eq r q n)
qed

text \<open>
  C3 as stated fails: after a wait that succeeds by a mutation the safety timer is still
  scheduled, and once it has fired the observer has been disconnected twice.
\<close>

theorem observer_released_twice_counterexample:
  "fst (waitForElement sel_dropTarget 3000 target_world) = Fulfilled el_target \<and>
   timers (snd (waitForElement sel_dropTarget 3000 target_world)) = [(3000, 0)] \<and>
   observers (snd (waitForElement sel_dropTarget 3000 target_world)) = [Observe 0, Disconnect 0] \<and>
   observers (timer_fires 3000 (snd (waitForElement sel_dropTarget 3000 target_world))) =
     [Observe 0, Disconnect 0, Disconnect 0]"
  using target_wait by (simp add: timer_fires_def fire_due_def)

subsection \<open>The primary send button\<close>

text \<open>
  C4. Among the visible buttons let a button reading send without the primary marker
  come before one reading send with it, with no primary send button before the latter.
  Then the choice of \<^verbatim>\<open>clickSendButton\<close> is the primary one, and it is the button that gets
  the focus and the two keyboard events.
\<close>

theorem send_button_primary_before_fallback:
  assumes "visibleButtons (doc w) = Inr vs"
    and "vs = pre @ secondary # mid @ primary # post"
    and "is_send secondary" and "\<not> str_includes (className secondary) ''primary''"
    and "is_send primary" and "str_includes (className primary) ''primary''"
    and "\<forall>b\<in>set (pre @ mid). \<not> is_primary_send b"
  shows "find_sendButton vs = Some primary \<and>
         calls (snd (clickSendButton w)) =
           calls w @ [(now w, Focus (node_id primary)),
                      (now w, DispatchEvent (node_id primary) (KeyboardEvent ''keydown'' ''Enter'' ''Enter'' 13)),
                      (now w, DispatchEvent (node_id primary) (KeyboardEvent ''keyup'' ''Enter'' ''Enter'' 13))]"
proof -
  have p: "find is_primary_send vs = Some primary"
    using primary_first [OF assms(2,4,5,6,7)] .
  then have f: "find_sendButton vs = Some primary" by (simp add: find_sendButton_def)
  have "sendButton_available w = Inr True"
    using assms(1) p by (simp add: sendButton_available_def)
  then have "waitUntil sendButton_available maxWaitTime_sendButton 100 w = (Fulfilled (), w)"
    by (rule waitUntil_true)
  then have "snd (clickSendButton w) =
      snd (waitUntil preview_closed maxWaitTime_clickResponse 100 (performClick primary w))"
    using assms(1) f by (simp add: clickSendButton_def Let_def snd_click_await)
  then show ?thesis using f
    by (simp add: performClick_def Let_def focus_def dispatchEvent_def)
qed

text \<open>C4 on the dialog of the sample chat.\<close>

theorem send_button_primary_before_fallback_witness:
  "visibleButtons (doc two_send_world) = Inr [el_secondary, el_primary] \<and>
   is_send el_secondary \<and> \<not> str_includes (className el_secondary) ''primary'' \<and>
   is_send el_primary \<and> str_includes (className el_primary) ''primary'' \<and>
   find_sendButton [el_secondary, el_primary] = Some el_primary \<and>
   calls (snd (clickSendButton two_send_world)) =
     [(0, Focus 5),
      (0, DispatchEvent 5 (KeyboardEvent ''keydown'' ''Enter'' ''Enter'' 13)),
      (0, DispatchEvent 5 (KeyboardEvent ''keyup'' ''Enter'' ''Enter'' 13))]"
proof -
  have v: "visibleButtons (doc two_send_world) = Inr [el_secondary, el_primary]"
    by (simp add: two_send_world_def modal_doc_buttons)
  have l: "[el_secondary, el_primary] = [] @ el_secondary # [] @ el_primary # []" by simp
  have s: "is_send el_secondary" "is_send el_primary"
    by (simp_all add: is_send_def button_text_samples)
  have n: "\<forall>b\<in>set ([] @ []). \<not> is_primary_send b" by simp
  have w: "now two_send_world = 0" "calls two_send_world = []" "node_id el_primary = 5"
    by (simp_all add: two_send_world_def chat_world_def el_primary_def)
  show ?thesis
    using v s primary_samples
      send_button_primary_before_fallback [OF v l s(1) primary_samples(1) s(2) primary_samples(2) n]
    by (simp add: w)
qed

subsection \<open>Order of the synthetic drag events\<close>

text \<open>
  C5. A run of \<^verbatim>\<open>uploadViaDragAndDrop\<close> that finds a drop zone makes exactly the calls of
  \<open>drag_sequence\<close>: the enter event on the zone found when the run starts; then, at the time
  the wait for the refined target ends and on the refined target if that wait succeeded, on
  the zone found first otherwise, three over events 50 milliseconds apart, the drop event
  and the leave event, the over events and the drop event each after their one-shot
  \<^verbatim>\<open>preventDefault\<close> listener.
\<close>

theorem drag_drop_event_order:
  assumes "findDropZone w = Inr surface"
  shows "case waitForElement sel_dropTarget maxWaitTime_dropTarget
                (dispatchEvent surface (DragEvent ''dragenter'' (createDataTransfer f)) w) of
           (r, w2) \<Rightarrow>
             calls (snd (uploadViaDragAndDrop f w)) =
               calls w @ drag_sequence (now w) (node_id surface) (now w2)
                          (node_id (case r of Fulfilled dropTarget \<Rightarrow> dropTarget | _ \<Rightarrow> surface))
                          (createDataTransfer f)"
  using calls_uploadViaDragAndDrop [OF assms] by (auto split: prod.splits)

text \<open>C5 on the sample chat.\<close>

theorem drag_drop_event_order_witness:
  "findDropZone chat_world = Inr el_composer \<and>
   calls (snd (uploadViaDragAndDrop png_file chat_world)) =
     drag_sequence 0 2 3000 2 (createDataTransfer png_file)"
proof -
  let ?w1 = "dispatchEvent el_composer (DragEvent ''dragenter'' (createDataTransfer png_file)) chat_world"
  have z: "findDropZone chat_world = Inr el_composer"
    by (simp add: chat_findDropZone chat_world_fields)
  have w1: "now ?w1 = 0" "doc ?w1 = chat_doc" "script ?w1 = chat_script" "page ?w1 = idle_page"
    by (simp_all add: dispatchEvent_def perform_def Let_def chat_world_fields idle_page_def)
  obtain w2 where w2: "waitForElement sel_dropTarget maxWaitTime_dropTarget ?w1 =
           (Rejected (Error ''Element not found: .DropTarget (timeout after 3000ms)''), w2)"
      "now w2 = 3000"
    using stage_refine [OF w1] by blast
  show ?thesis
    using z drag_drop_event_order [OF z, of png_file]
    by (simp add: w2 chat_world_fields id_composer)
qed

subsection \<open>A refined target that never appears\<close>

text \<open>
  C6. Take a run of \<^verbatim>\<open>uploadPhoto\<close> whose job converts to a file, that finds a drop zone
  and whose wait for the refined drop target is rejected. The rejection is the timeout of
  that wait, and the sequencer goes on with the zone found first: by the time it waits for
  the confirmation surface it has made the calls of \<open>drag_sequence\<close> with that zone as the
  target, 3000 milliseconds after the start. What the run returns then depends on the two
  waits that follow, neither of which stays pending.
  If the confirmation surface never appears, the result is a failure with the timeout of
  that wait as its error, the drag events having been dispatched.
  If it appears, it is in the document when the wait ends; if then no visible primary send
  button shows up in time, the result is a failure with the timeout of that wait; if one
  does, the result has \<^verbatim>\<open>success: true\<close> and the duration of the run, and the calls of
  the run are those of \<open>drag_sequence\<close> followed by the click on the first visible primary
  send button.
\<close>

theorem refined_target_timeout_is_not_fatal:
  assumes "uploadPhoto_file job (now w) = Inr f"
    and "findDropZone w = Inr surface"
    and "fst (waitForElement sel_dropTarget maxWaitTime_dropTarget
           (dispatchEvent surface (DragEvent ''dragenter'' (createDataTransfer f)) w)) = Rejected e"
  shows
    "let dt = createDataTransfer f;
         w2 = snd (waitForElement sel_dropTarget maxWaitTime_dropTarget
                     (dispatchEvent surface (DragEvent ''dragenter'' dt) w));
         w6 = drop_events surface dt w2;
         sequence = drag_sequence (now w) (node_id surface) (now w + 3000) (node_id surface) dt
     in e = Error ''Element not found: .DropTarget (timeout after 3000ms)'' \<and>
        uploadViaDragAndDrop f w = drop_on surface dt w2 \<and>
        calls (snd (uploadViaDragAndDrop f w)) = calls w @ sequence \<and>
        calls w6 = calls w @ sequence \<and>
        (case waitForPreviewModal w6 of
           (Pending, w7) \<Rightarrow> False
         | (Rejected e1, w7) \<Rightarrow>
             uploadPhoto job w =
               (Fulfilled \<lparr>success = False, error = Some (error_message preview_timeout),
                           message = None, duration = Some (int (now w7) - int (now w))\<rparr>, w7) \<and>
             calls w7 = calls w @ sequence
         | (Fulfilled modal, w7) \<Rightarrow>
             querySelector sel_previewModal (doc w7) = Inr (Some modal) \<and>
             (case waitUntil sendButton_available maxWaitTime_sendButton 100 w7 of
                (Pending, w8) \<Rightarrow> False
              | (Rejected e2, w8) \<Rightarrow>
                  uploadPhoto job w =
                    (Fulfilled \<lparr>success = False,
                       error = Some ''Failed to click send: Timeout waiting for condition after 5000ms'',
                       message = None, duration = Some (int (now w8) - int (now w))\<rparr>, w8) \<and>
                  calls w8 = calls w @ sequence
              | (Fulfilled u, w8) \<Rightarrow>
                  (\<exists>vs b w9. visibleButtons (doc w8) = Inr vs \<and>
                     find is_primary_send vs = Some b \<and>
                     uploadPhoto job w =
                       (Fulfilled \<lparr>success = True, error = None,
                          message = Some ''Photo uploaded successfully'',
                          duration = Some (int (now w9) - int (now w))\<rparr>, w9) \<and>
                     calls w9 = calls w @ sequence @ click_calls (now w8) (node_id b))))"
proof -
  define dt where "dt = createDataTransfer f"
  define w1 where "w1 = dispatchEvent surface (DragEvent ''dragenter'' dt) w"
  define w2 where "w2 = snd (waitForElement sel_dropTarget maxWaitTime_dropTarget w1)"
  define w6 where "w6 = drop_events surface dt w2"
  define sequence where
    "sequence = drag_sequence (now w) (node_id surface) (now w + 3000) (node_id surface) dt"
  have eq: "waitForElement sel_dropTarget maxWaitTime_dropTarget w1 = (Rejected e, w2)"
    using assms(3) unfolding w2_def w1_def dt_def
    by (cases "waitForElement sel_dropTarget maxWaitTime_dropTarget
           (dispatchEvent surface (DragEvent ''dragenter'' (createDataTransfer f)) w)") simp
  have eq': "waitForElement (Group [ClassSel ''DropTarget'']) maxWaitTime_dropTarget w1 = (Rejected e, w2)"
    using eq by (simp add: sel_dropTarget_def)
  have e: "e = Error ''Element not found: .DropTarget (timeout after 3000ms)''"
    using waitForElement_rejects [OF eq'] by (simp add: maxWaitTime_dropTarget_def show_3000)
  have upl: "uploadViaDragAndDrop f w = drop_on surface dt w2"
    using assms(2) eq by (simp add: uploadViaDragAndDrop_def Let_def dt_def w1_def)
  have now2: "now w2 = now w + 3000"
    using waitForElement_rejected_now [OF eq']
    by (simp add: maxWaitTime_dropTarget_def w1_def dispatchEvent_def)
  have "calls (snd (Rejected e :: element outcome, w2)) = calls w1"
    unfolding eq [symmetric] by (rule calls_waitForElement)
  then have calls2: "calls w2 = calls w @ [(now w, DispatchEvent (node_id surface) (DragEvent ''dragenter'' dt))]"
    by (simp add: w1_def dispatchEvent_def)
  have calls6: "calls w6 = calls w @ sequence"
    unfolding w6_def sequence_def
    using calls_drop_events [of surface dt w2 "now w" "node_id surface"]
    by (simp add: calls2 now2 drag_sequence_def)
  have callsU: "calls (snd (uploadViaDragAndDrop f w)) = calls w @ sequence"
    using calls_uploadViaDragAndDrop [OF assms(2), of f "Rejected e" w2] eq
    by (simp add: now2 sequence_def dt_def w1_def)
  have body: "uploadPhoto_try job w =
      (case uploadViaDragAndDrop f w of
         (Rejected e, w1) \<Rightarrow> (Rejected e, w1)
       | (Pending, w1) \<Rightarrow> (Pending, w1)
       | (Fulfilled b, w1) \<Rightarrow> clickSendButton w1)"
    using assms(1) by (simp add: uploadPhoto_try_def)
  obtain r w7 where pm: "waitForPreviewModal w6 = (r, w7)"
    by (cases "waitForPreviewModal w6")
  have pm': "waitForElement (Group [ClassSel ''modal'', AttrSel ''role'' ''dialog'']) maxWaitTime_preview w6 = (r, w7)"
    using pm by (simp add: waitForPreviewModal_def sel_previewModal_def)
  have "calls (snd (r, w7)) = calls w6"
    unfolding pm' [symmetric] by (rule calls_waitForElement)
  then have calls7: "calls w7 = calls w @ sequence" by (simp add: calls6)
  have main: "case waitForPreviewModal w6 of
           (Pending, w7) \<Rightarrow> False
         | (Rejected e1, w7) \<Rightarrow>
             uploadPhoto job w =
               (Fulfilled \<lparr>success = False, error = Some (error_message preview_timeout),
                           message = None, duration = Some (int (now w7) - int (now w))\<rparr>, w7) \<and>
             calls w7 = calls w @ sequence
         | (Fulfilled modal, w7) \<Rightarrow>
             querySelector sel_previewModal (doc w7) = Inr (Some modal) \<and>
             (case waitUntil sendButton_available maxWaitTime_sendButton 100 w7 of
                (Pending, w8) \<Rightarrow> False
              | (Rejected e2, w8) \<Rightarrow>
                  uploadPhoto job w =
                    (Fulfilled \<lparr>success = False,
                       error = Some ''Failed to click send: Timeout waiting for condition after 5000ms'',
                       message = None, duration = Some (int (now w8) - int (now w))\<rparr>, w8) \<and>
                  calls w8 = calls w @ sequence
              | (Fulfilled u, w8) \<Rightarrow>
                  (\<exists>vs b w9. visibleButtons (doc w8) = Inr vs \<and>
                     find is_primary_send vs = Some b \<and>
                     uploadPhoto job w =
                       (Fulfilled \<lparr>success = True, error = None,
                          message = Some ''Photo uploaded successfully'',
                          duration = Some (int (now w9) - int (now w))\<rparr>, w9) \<and>
                     calls w9 = calls w @ sequence @ click_calls (now w8) (node_id b)))"
  proof (cases r)
    case Pending
    then show ?thesis using pm' waitForElement_no_Pending by blast
  next
    case (Rejected e1)
    then have pmr: "waitForElement (Group [ClassSel ''modal'', AttrSel ''role'' ''dialog''])
                      maxWaitTime_preview w6 = (Rejected e1, w7)"
      using pm' by simp
    have "e1 = preview_timeout"
      using waitForElement_rejects [OF pmr]
      by (simp add: preview_timeout_def show_preview sel_previewModal_def)
    then have "uploadPhoto_try job w = (Rejected preview_timeout, w7)"
      using body upl pm Rejected by (simp add: drop_on_events w6_def)
    then show ?thesis using pm Rejected calls7 by (simp add: uploadPhoto_def Let_def)
  next
    case (Fulfilled modal)
    have pmf: "waitForElement (Group [ClassSel ''modal'', AttrSel ''role'' ''dialog''])
                 maxWaitTime_preview w6 = (Fulfilled modal, w7)"
      using pm' Fulfilled by simp
    have q: "querySelector sel_previewModal (doc w7) = Inr (Some modal)"
      using waitForElement_fulfilled [OF pmf] by (simp add: sel_previewModal_def)
    have t7: "uploadPhoto_try job w = clickSendButton w7"
      using body upl pm Fulfilled by (simp add: drop_on_events w6_def)
    let ?p = "waitUntil sendButton_available maxWaitTime_sendButton 100 w7"
    obtain r8 w8 where sb: "?p = (r8, w8)" by (cases ?p)
    have "calls (snd (r8, w8)) = calls w7"
      unfolding sb [symmetric] by (rule calls_waitUntil)
    then have calls8: "calls w8 = calls w @ sequence" by (simp add: calls7)
    have inner: "case ?p of
                (Pending, w8) \<Rightarrow> False
              | (Rejected e2, w8) \<Rightarrow>
                  uploadPhoto job w =
                    (Fulfilled \<lparr>success = False,
                       error = Some ''Failed to click send: Timeout waiting for condition after 5000ms'',
                       message = None, duration = Some (int (now w8) - int (now w))\<rparr>, w8) \<and>
                  calls w8 = calls w @ sequence
              | (Fulfilled u, w8) \<Rightarrow>
                  (\<exists>vs b w9. visibleButtons (doc w8) = Inr vs \<and>
                     find is_primary_send vs = Some b \<and>
                     uploadPhoto job w =
                       (Fulfilled \<lparr>success = True, error = None,
                          message = Some ''Photo uploaded successfully'',
                          duration = Some (int (now w9) - int (now w))\<rparr>, w9) \<and>
                     calls w9 = calls w @ sequence @ click_calls (now w8) (node_id b))"
    proof (cases r8)
      case Pending
      then show ?thesis
        using sb waitUntil_settles [of sendButton_available] sendButton_available_total by blast
    next
      case (Rejected e2)
      then have "uploadPhoto_try job w =
          (Rejected (Error ''Failed to click send: Timeout waiting for condition after 5000ms''), w8)"
        using t7 click_wait_rejected sb by simp
      then show ?thesis using sb Rejected calls8 by (simp add: uploadPhoto_def Let_def)
    next
      case (Fulfilled u)
      then obtain vs b w9 where c: "visibleButtons (doc w8) = Inr vs"
          "find is_primary_send vs = Some b" "clickSendButton w7 = (Fulfilled (), w9)"
          "calls w9 = calls w7 @ click_calls (now w8) (node_id b)"
        using click_after_wait sb by blast
      then have "uploadPhoto job w =
                       (Fulfilled \<lparr>success = True, error = None,
                          message = Some ''Photo uploaded successfully'',
                          duration = Some (int (now w9) - int (now w))\<rparr>, w9)"
        using t7 by (simp add: uploadPhoto_def Let_def)
      then show ?thesis using sb Fulfilled c calls7 by auto
    qed
    show ?thesis using pm Fulfilled q inner by simp
  qed
  show ?thesis
    unfolding Let_def
    using e upl callsU calls6 main
    unfolding dt_def w1_def w2_def w6_def sequence_def by blast
qed

text \<open>
  C6 on the sample chat, where no refined target ever appears and the confirmation surface
  opens at time 3200: the run returns \<^verbatim>\<open>success: true\<close>.
\<close>

theorem refined_target_timeout_is_not_fatal_witness:
  "uploadPhoto_file (Some png_job) (now chat_world) = Inr png_file \<and>
   findDropZone chat_world = Inr el_composer \<and>
   fst (waitForElement sel_dropTarget maxWaitTime_dropTarget
          (dispatchEvent el_composer (DragEvent ''dragenter'' (createDataTransfer png_file))
             chat_world)) =
     Rejected (Error ''Element not found: .DropTarget (timeout after 3000ms)'') \<and>
   fst (waitForPreviewModal
          (drop_events el_composer (createDataTransfer png_file)
             (snd (waitForElement sel_dropTarget maxWaitTime_dropTarget
                     (dispatchEvent el_composer
                        (DragEvent ''dragenter'' (createDataTransfer png_file)) chat_world))))) =
     Fulfilled el_modal \<and>
   (\<exists>w9. uploadPhoto (Some png_job) chat_world =
            (Fulfilled \<lparr>success = True, error = None,
                         message = Some ''Photo uploaded successfully'',
                         duration = Some (int (now w9))\<rparr>, w9) \<and>
         calls w9 = drag_sequence 0 2 3000 2 (createDataTransfer png_file) @ click_calls 3200 5)"
proof -
  let ?dt = "createDataTransfer png_file"
  let ?w1 = "dispatchEvent el_composer (DragEvent ''dragenter'' ?dt) chat_world"
  let ?w2 = "snd (waitForElement sel_dropTarget maxWaitTime_dropTarget ?w1)"
  let ?w6 = "drop_events el_composer ?dt ?w2"
  have conv: "uploadPhoto_file (Some png_job) (now chat_world) = Inr png_file"
    by (simp add: chat_world_fields chat_file)
  have zone: "findDropZone chat_world = Inr el_composer"
    by (simp add: chat_findDropZone chat_world_fields)
  have w1: "now ?w1 = 0" "doc ?w1 = chat_doc" "script ?w1 = chat_script" "page ?w1 = idle_page"
    by (simp_all add: dispatchEvent_def perform_def Let_def chat_world_fields idle_page_def)
  obtain w2 where w2: "waitForElement sel_dropTarget maxWaitTime_dropTarget ?w1 =
           (Rejected (Error ''Element not found: .DropTarget (timeout after 3000ms)''), w2)"
      "now w2 = 3000" "doc w2 = chat_doc" "script w2 = chat_script" "page w2 = idle_page"
    using stage_refine [OF w1] by blast
  have w2': "?w2 = w2" by (simp add: w2(1))
  obtain w7 where w7: "waitForPreviewModal ?w6 = (Fulfilled el_modal, w7)"
      "now w7 = 3200" "doc w7 = modal_doc"
    using stage_preview [OF w2(2-5), of el_composer ?dt] unfolding w2' by blast
  have sb: "waitUntil sendButton_available maxWaitTime_sendButton 100 w7 = (Fulfilled (), w7)"
    using modal_sendButton_available [OF w7(3)] by (rule waitUntil_true)
  note general = refined_target_timeout_is_not_fatal [OF conv zone chat_refined_timeout]
  have "\<exists>vs b w9. visibleButtons (doc w7) = Inr vs \<and> find is_primary_send vs = Some b \<and>
          uploadPhoto (Some png_job) chat_world =
            (Fulfilled \<lparr>success = True, error = None,
                         message = Some ''Photo uploaded successfully'',
                         duration = Some (int (now w9) - int (now chat_world))\<rparr>, w9) \<and>
          calls w9 = calls chat_world @
            drag_sequence (now chat_world) (node_id el_composer) (now chat_world + 3000)
              (node_id el_composer) ?dt @ click_calls (now w7) (node_id b)"
    using general by (simp add: Let_def w7(1) sb)
  then obtain vs b w9 where
      vs: "visibleButtons (doc w7) = Inr vs" and b: "find is_primary_send vs = Some b" and
      up: "uploadPhoto (Some png_job) chat_world =
            (Fulfilled \<lparr>success = True, error = None,
                         message = Some ''Photo uploaded successfully'',
                         duration = Some (int (now w9) - int (now chat_world))\<rparr>, w9)" and
      cs: "calls w9 = calls chat_world @
            drag_sequence (now chat_world) (node_id el_composer) (now chat_world + 3000)
              (node_id el_composer) ?dt @ click_calls (now w7) (node_id b)"
    by blast
  have "vs = [el_secondary, el_primary]"
    using vs by (simp add: w7(3) modal_doc_buttons)
  then have "b = el_primary" using b by (simp only: modal_primary option.inject)
  then have "uploadPhoto (Some png_job) chat_world =
            (Fulfilled \<lparr>success = True, error = None,
                         message = Some ''Photo uploaded successfully'',
                         duration = Some (int (now w9))\<rparr>, w9) \<and>
         calls w9 = drag_sequence 0 2 3000 2 ?dt @ click_calls 3200 5"
    using up cs by (simp add: w7(2) chat_world_fields id_composer id_primary)
  then have "\<exists>w9. uploadPhoto (Some png_job) chat_world =
            (Fulfilled \<lparr>success = True, error = None,
                         message = Some ''Photo uploaded successfully'',
                         duration = Some (int (now w9))\<rparr>, w9) \<and>
         calls w9 = drag_sequence 0 2 3000 2 ?dt @ click_calls 3200 5"
    by blast
  then show ?thesis
    using conv zone chat_refined_timeout w7(1) by simp
qed

subsection \<open>No exception escapes\<close>

text \<open>
  C7. \<^verbatim>\<open>uploadPhoto\<close> always returns a result object: its promise is fulfilled, never
  rejected and never left pending. The result carries the duration from the start to the
  return. It has \<^verbatim>\<open>success: true\<close> exactly when the \<^verbatim>\<open>try\<close> block ran to its end;
  otherwise the block failed with one of five messages, and that message is the
  \<^verbatim>\<open>error\<close> of the result. The message listener answers every request.
\<close>

theorem uploadPhoto_always_answers:
  "(\<exists>r w'. uploadPhoto job w = (Fulfilled r, w') \<and>
      duration r = Some (int (now w') - int (now w)) \<and>
      (success r \<longrightarrow> fst (uploadPhoto_try job w) = Fulfilled () \<and> error r = None) \<and>
      (\<not> success r \<longrightarrow> (\<exists>m \<in> set failure_messages.
          fst (uploadPhoto_try job w) = Rejected (Error m) \<and> error r = Some m))) \<and>
   (\<exists>resp w'. onMessage request w = (Some resp, w'))"
proof -
  obtain w' where t: "uploadPhoto_try job w = (Fulfilled (), w') \<or>
        (\<exists>m \<in> set failure_messages. uploadPhoto_try job w = (Rejected (Error m), w'))"
    using uploadPhoto_try_outcome by blast
  have 1: "\<exists>r w'. uploadPhoto job w = (Fulfilled r, w') \<and>
      duration r = Some (int (now w') - int (now w)) \<and>
      (success r \<longrightarrow> fst (uploadPhoto_try job w) = Fulfilled () \<and> error r = None) \<and>
      (\<not> success r \<longrightarrow> (\<exists>m \<in> set failure_messages.
          fst (uploadPhoto_try job w) = Rejected (Error m) \<and> error r = Some m))"
    using t by (auto simp: uploadPhoto_def Let_def)
  obtain w2 where "uploadPhoto_try (data request) w = (Fulfilled (), w2) \<or>
        (\<exists>m \<in> set failure_messages. uploadPhoto_try (data request) w = (Rejected (Error m), w2))"
    using uploadPhoto_try_outcome by blast
  then have 2: "\<exists>resp w'. onMessage request w = (Some resp, w')"
    by (auto simp: onMessage_def uploadPhoto_def Let_def)
  show ?thesis using 1 2 by blast
qed

text \<open>C7 on a job without data.\<close>

theorem uploadPhoto_always_answers_witness:
  "(\<exists>r w'. uploadPhoto None chat_world = (Fulfilled r, w') \<and>
      duration r = Some (int (now w') - int (now chat_world)) \<and>
      \<not> success r \<and> fst (uploadPhoto_try None chat_world) =
          Rejected (Error ''Invalid data: arrayBuffer is required'') \<and>
      error r = Some ''Invalid data: arrayBuffer is required'') \<and>
   (\<exists>resp w'. onMessage upload_request chat_world = (Some resp, w'))"
proof -
  have t: "uploadPhoto_try None chat_world = (Rejected (Error ''Invalid data: arrayBuffer is required''), chat_world)"
    by (simp add: uploadPhoto_try_def uploadPhoto_file_def)
  show ?thesis
    using uploadPhoto_always_answers [of None chat_world upload_request] t
    by auto
qed

subsection \<open>Unknown actions\<close>

text \<open>
  C8. A request whose action is neither \<^verbatim>\<open>uploadPhoto\<close> nor \<^verbatim>\<open>ping\<close> is answered at once
  with \<^verbatim>\<open>success: false\<close> and the error \<^verbatim>\<open>Unknown action: \<close> followed by the action,
  converted to a string as a template literal does; the response has no other field and
  the world is left as it was.
\<close>

theorem unknown_action_response:
  assumes "action request \<noteq> JString ''uploadPhoto''" and "action request \<noteq> JString ''ping''"
  shows "onMessage request w =
           (Some \<lparr>success = False, error = Some (''Unknown action: '' @ to_string (action request)),
                   message = None, duration = None\<rparr>, w)"
  using assms by (simp add: onMessage_def)

text \<open>C8 on the action \<^verbatim>\<open>foo\<close>.\<close>

theorem unknown_action_response_witness:
  "action foo_request \<noteq> JString ''uploadPhoto'' \<and> action foo_request \<noteq> JString ''ping'' \<and>
   onMessage foo_request chat_world =
     (Some \<lparr>success = False, error = Some ''Unknown action: foo'', message = None, duration = None\<rparr>,
      chat_world)"
proof -
  have a: "action foo_request \<noteq> JString ''uploadPhoto''" by (simp add: foo_request_def)
  have b: "action foo_request \<noteq> JString ''ping''" by (simp add: foo_request_def)
  show ?thesis using a b unknown_action_response [OF a b, of chat_world]
    by (simp add: foo_request_def)
qed

subsection \<open>Defaults of the file\<close>

text \<open>
  C9. A job with an array buffer is always converted to a file, with the bytes of the
  buffer; a missing or empty filename gives the file the name \<^verbatim>\<open>image.png\<close>, a missing or
  empty MIME type gives it the type \<^verbatim>\<open>image/png\<close>.
\<close>

theorem uploadPhoto_defaults:
  assumes "arrayBuffer d = Some buffer"
  shows "\<exists>f. uploadPhoto_file (Some d) t = Inr f \<and> file_bytes f = map (\<lambda>x. x mod 256) buffer \<and>
             (filename d = None \<or> filename d = Some [] \<longrightarrow> file_name f = ''image.png'') \<and>
             (mimeType d = None \<or> mimeType d = Some [] \<longrightarrow> file_type f = ''image/png'')"
  using assms
  by (auto simp: uploadPhoto_file_def arrayBufferToFile_def or_default_def normalized_png)

text \<open>C9 on a job without a filename and with an empty MIME type.\<close>

theorem uploadPhoto_defaults_witness:
  "arrayBuffer png_job = Some [137, 80, 78, 71] \<and> filename png_job = None \<and>
   mimeType png_job = Some [] \<and>
   (\<exists>f. uploadPhoto_file (Some png_job) 0 = Inr f \<and> file_bytes f = [137, 80, 78, 71] \<and>
        file_name f = ''image.png'' \<and> file_type f = ''image/png'')"
proof -
  have a: "arrayBuffer png_job = Some [137, 80, 78, 71]" by (simp add: png_job_def)
  have b: "filename png_job = None" "mimeType png_job = Some []" by (simp_all add: png_job_def)
  show ?thesis using a b uploadPhoto_defaults [OF a, of 0] by auto
qed

subsection \<open>Jobs without a buffer\<close>

text \<open>
  C10. When the data is null or undefined, or has no array buffer, \<^verbatim>\<open>uploadPhoto\<close>
  returns a result with \<^verbatim>\<open>success: false\<close>, the error
  \<^verbatim>\<open>Invalid data: arrayBuffer is required\<close> and a duration that is not negative. It does
  not throw, and it leaves the world as it was, so nothing is dispatched.
\<close>

theorem uploadPhoto_invalid_data:
  assumes "job = None \<or> (\<exists>d. job = Some d \<and> arrayBuffer d = None)"
  shows "\<exists>t. uploadPhoto job w =
               (Fulfilled \<lparr>success = False, error = Some ''Invalid data: arrayBuffer is required'',
                           message = None, duration = Some t\<rparr>, w) \<and> 0 \<le> t"
  using assms by (auto simp: uploadPhoto_def uploadPhoto_try_def uploadPhoto_file_def)

text \<open>C10 on a job whose data has a filename and a type, but no buffer.\<close>

theorem uploadPhoto_invalid_data_witness:
  "arrayBuffer no_buffer_job = None \<and>
   (\<exists>t. uploadPhoto (Some no_buffer_job) chat_world =
               (Fulfilled \<lparr>success = False, error = Some ''Invalid data: arrayBuffer is required'',
                           message = None, duration = Some t\<rparr>, chat_world) \<and> 0 \<le> t)"
proof -
  have a: "arrayBuffer no_buffer_job = None"
    by (simp add: no_buffer_job_def)
  then have h: "Some no_buffer_job = None \<or> (\<exists>d. Some no_buffer_job = Some d \<and> arrayBuffer d = None)"
    by simp
  show ?thesis using a uploadPhoto_invalid_data [OF h, of chat_world] by blast
qed

end
